theory Spec2Isabelle
  imports Complex_Main "HOL-Library.Sublist"
begin

text \<open>
  The crypto-alpha agent, \<^verbatim>\<open>src/index.ts\<close>: six Source Clients that fetch public market
  feeds, the Signal Engine \<^verbatim>\<open>buildAlphaSignals\<close> that derives alpha signals from what they
  return, and the route handlers that assemble the responses. The older entry file of the
  repository has the same Source Clients and the same Signal Engine; the handlers below are those
  of \<^verbatim>\<open>src/index.ts\<close>.
\<close>

section \<open>JavaScript values\<close>

text \<open>
  Every value the program handles is typed \<^verbatim>\<open>any\<close>: it is what \<^verbatim>\<open>res.json()\<close> parsed from an
  upstream body, \<^verbatim>\<open>null\<close>, or an object literal built from such values. \<open>jsval\<close> is that
  universe. An object is an association list read with \<open>map_of\<close>. \<open>JNum\<close> carries a finite
  double by its exact value, and arithmetic on it is exact where JavaScript rounds; the
  comparisons of the program are against small integers and come out the same. \<open>JNaN\<close> is
  the number NaN, which \<^verbatim>\<open>parseInt\<close> and arithmetic on non-numbers produce. Infinities (a
  JSON literal beyond the double range) are outside the model. Strings are byte strings: the
  case mappings and \<^verbatim>\<open>slice\<close> below are those of JavaScript on ASCII text.
\<close>

datatype jsval =
    JUndefined
  | JNull
  | JBool bool
  | JNum real
  | JNaN
  | JStr string
  | JArr "jsval list"
  | JObj "(string \<times> jsval) list"

datatype error =
    TypeError
  | SyntaxError
  | RangeError
  | NetworkError
  | Error string

text \<open>
  What the program takes from its runtime and this development does not compute: the
  rendering of a number that is not a small integer (\<^verbatim>\<open>Number::toString\<close> prints the
  shortest decimal that reads back as the same double), the reading of a string as a number
  (\<^verbatim>\<open>StringToNumber\<close>, \<open>None\<close> for NaN), \<^verbatim>\<open>crypto.randomUUID()\<close>, the clock
  (\<^verbatim>\<open>new Date().toISOString()\<close>), the calendar (the date part of
  \<^verbatim>\<open>new Date(ms).toISOString()\<close>) and the \<^verbatim>\<open>message\<close> of an error that JavaScript itself raises.
  Every theorem below holds for every runtime.
\<close>

record runtime =
  numberToString :: "real \<Rightarrow> string"
  stringToNumber :: "string \<Rightarrow> real option"
  randomUUID :: string
  nowISO :: string
  isoDate :: "int \<Rightarrow> string"
  nativeMessage :: "error \<Rightarrow> string"

definition bindE :: "error + 'a \<Rightarrow> ('a \<Rightarrow> error + 'b) \<Rightarrow> error + 'b" where
  "bindE m f = (case m of Inl e \<Rightarrow> Inl e | Inr x \<Rightarrow> f x)"

subsection \<open>Truthiness, property access, optional chaining\<close>

fun truthy :: "jsval \<Rightarrow> bool" where
  "truthy JUndefined = False"
| "truthy JNull = False"
| "truthy (JBool b) = b"
| "truthy (JNum r) = (r \<noteq> 0)"
| "truthy JNaN = False"
| "truthy (JStr s) = (s \<noteq> [])"
| "truthy (JArr xs) = True"
| "truthy (JObj kvs) = True"

text \<open>\<^verbatim>\<open>a || b\<close>\<close>

definition js_or :: "jsval \<Rightarrow> jsval \<Rightarrow> jsval" where
  "js_or a b = (if truthy a then a else b)"

fun nullish :: "jsval \<Rightarrow> bool" where
  "nullish JUndefined = True"
| "nullish JNull = True"
| "nullish v = False"

text \<open>
  \<^verbatim>\<open>v?.k\<close>: \<^verbatim>\<open>undefined\<close> on \<^verbatim>\<open>null\<close> and \<^verbatim>\<open>undefined\<close>, the own property of an object,
  \<^verbatim>\<open>undefined\<close> on everything else (none of the names the program reads is a member of
  the String, Array, Number or Boolean prototypes).
\<close>

fun opt_get :: "jsval \<Rightarrow> string \<Rightarrow> jsval" where
  "opt_get (JObj kvs) k = (case map_of kvs k of None \<Rightarrow> JUndefined | Some v \<Rightarrow> v)"
| "opt_get v k = JUndefined"

text \<open>\<^verbatim>\<open>v.k\<close>: a TypeError on \<^verbatim>\<open>null\<close> and \<^verbatim>\<open>undefined\<close>.\<close>

definition get :: "jsval \<Rightarrow> string \<Rightarrow> error + jsval" where
  "get v k = (if nullish v then Inl TypeError else Inr (opt_get v k))"

definition digit_char :: "nat \<Rightarrow> char" where
  "digit_char n = ''0123456789'' ! n"

fun showNat :: "nat \<Rightarrow> string" where
  "showNat n = (if n < 10 then [digit_char n] else showNat (n div 10) @ [digit_char (n mod 10)])"

definition showInt :: "int \<Rightarrow> string" where
  "showInt i = (if i < 0 then CHR ''-'' # showNat (nat (- i)) else showNat (nat i))"

text \<open>
  \<^verbatim>\<open>v?.[i]\<close>: an element of an array, a one-character string of a string, the property
  named by the digits of \<open>i\<close> of an object, and \<^verbatim>\<open>undefined\<close> when there is none.
\<close>

fun opt_idx :: "jsval \<Rightarrow> nat \<Rightarrow> jsval" where
  "opt_idx (JArr xs) i = (if i < length xs then xs ! i else JUndefined)"
| "opt_idx (JStr s) i = (if i < length s then JStr [s ! i] else JUndefined)"
| "opt_idx (JObj kvs) i = opt_get (JObj kvs) (showNat i)"
| "opt_idx v i = JUndefined"

subsection \<open>Conversions\<close>

text \<open>
  \<^verbatim>\<open>Number::toString\<close>: an integer below \<open>10\<^sup>2\<^sup>1\<close> in magnitude prints its decimal
  digits; every other number is the runtime's.
\<close>

definition numToString :: "runtime \<Rightarrow> real \<Rightarrow> string" where
  "numToString rt r =
     (if r = of_int \<lfloor>r\<rfloor> \<and> \<bar>r\<bar> < 10 ^ 21 then showInt \<lfloor>r\<rfloor> else numberToString rt r)"

fun join :: "string \<Rightarrow> string list \<Rightarrow> string" where
  "join sep [] = []"
| "join sep [s] = s"
| "join sep (s # t # ss) = s @ sep @ join sep (t # ss)"

text \<open>\<^verbatim>\<open>String(v)\<close>, as a template literal applies it. An array joins its elements with
  commas, \<^verbatim>\<open>null\<close> and \<^verbatim>\<open>undefined\<close> elements printing as nothing.\<close>

fun toStringJ :: "runtime \<Rightarrow> jsval \<Rightarrow> string" where
  "toStringJ rt JUndefined = ''undefined''"
| "toStringJ rt JNull = ''null''"
| "toStringJ rt (JBool b) = (if b then ''true'' else ''false'')"
| "toStringJ rt (JNum r) = numToString rt r"
| "toStringJ rt JNaN = ''NaN''"
| "toStringJ rt (JStr s) = s"
| "toStringJ rt (JArr xs) =
     join '','' (map (\<lambda>x. if nullish x then [] else toStringJ rt x) xs)"
| "toStringJ rt (JObj kvs) = ''[object Object]''"

text \<open>
  \<^verbatim>\<open>Number(v)\<close>, \<open>None\<close> for NaN. The empty string is 0 and every other string is read
  by the runtime; an array or object is first turned into a string.
\<close>

definition strToNum :: "runtime \<Rightarrow> string \<Rightarrow> real option" where
  "strToNum rt s = (if s = [] then Some 0 else stringToNumber rt s)"

fun toNumber :: "runtime \<Rightarrow> jsval \<Rightarrow> real option" where
  "toNumber rt JUndefined = None"
| "toNumber rt JNull = Some 0"
| "toNumber rt (JBool b) = Some (if b then 1 else 0)"
| "toNumber rt (JNum r) = Some r"
| "toNumber rt JNaN = None"
| "toNumber rt (JStr s) = strToNum rt s"
| "toNumber rt (JArr xs) = strToNum rt (toStringJ rt (JArr xs))"
| "toNumber rt (JObj kvs) = strToNum rt (toStringJ rt (JObj kvs))"

text \<open>\<^verbatim>\<open>v > c\<close> and \<^verbatim>\<open>v < c\<close> against a number: both false when \<open>v\<close> converts to NaN.\<close>

definition js_gt :: "runtime \<Rightarrow> jsval \<Rightarrow> real \<Rightarrow> bool" where
  "js_gt rt v c = (case toNumber rt v of None \<Rightarrow> False | Some r \<Rightarrow> r > c)"

definition js_lt :: "runtime \<Rightarrow> jsval \<Rightarrow> real \<Rightarrow> bool" where
  "js_lt rt v c = (case toNumber rt v of None \<Rightarrow> False | Some r \<Rightarrow> r < c)"

text \<open>
  \<^verbatim>\<open>parseInt(v)\<close> with no radix: the string of \<open>v\<close>, leading white space dropped, an
  optional sign, the prefix \<^verbatim>\<open>0x\<close> selecting radix 16, then the longest run of digits of the
  radix; NaN (\<open>None\<close>) when that run is empty. The result is the integer the digits
  denote; JavaScript holds the double nearest to it.
\<close>

definition isWhite :: "char \<Rightarrow> bool" where
  "isWhite c = (c \<in> set [CHR 0x20, CHR 0x09, CHR 0x0A, CHR 0x0B, CHR 0x0C, CHR 0x0D])"

definition digitVal :: "char \<Rightarrow> nat option" where
  "digitVal c =
     (let n = (of_char c :: nat) in
      if 48 \<le> n \<and> n \<le> 57 then Some (n - 48)
      else if 97 \<le> n \<and> n \<le> 122 then Some (n - 87)
      else if 65 \<le> n \<and> n \<le> 90 then Some (n - 55)
      else None)"

definition isDigit :: "nat \<Rightarrow> char \<Rightarrow> bool" where
  "isDigit R c = (case digitVal c of None \<Rightarrow> False | Some d \<Rightarrow> d < R)"

definition digitsVal :: "nat \<Rightarrow> string \<Rightarrow> nat" where
  "digitsVal R Z = foldl (\<lambda>a c. a * R + (case digitVal c of None \<Rightarrow> 0 | Some d \<Rightarrow> d)) 0 Z"

definition parseIntStr :: "string \<Rightarrow> int option" where
  "parseIntStr inputString =
     (let S = dropWhile isWhite inputString;
          sign = (if take 1 S = ''-'' then - 1 else 1 :: int);
          S1 = (if take 1 S = ''-'' \<or> take 1 S = ''+'' then drop 1 S else S);
          hex = (take 2 S1 = ''0x'' \<or> take 2 S1 = ''0X'');
          R = (if hex then 16 else 10);
          S2 = (if hex then drop 2 S1 else S1);
          Z = takeWhile (isDigit R) S2
      in if Z = [] then None else Some (sign * int (digitsVal R Z)))"

definition parseInt :: "runtime \<Rightarrow> jsval \<Rightarrow> int option" where
  "parseInt rt v = parseIntStr (toStringJ rt v)"

text \<open>A number that \<^verbatim>\<open>parseInt\<close> returned, as a value and against a constant.\<close>

definition numJ :: "int option \<Rightarrow> jsval" where
  "numJ n = (case n of None \<Rightarrow> JNaN | Some i \<Rightarrow> JNum (of_int i))"

definition num_le :: "int option \<Rightarrow> int \<Rightarrow> bool" where
  "num_le n c = (case n of None \<Rightarrow> False | Some i \<Rightarrow> i \<le> c)"

definition num_ge :: "int option \<Rightarrow> int \<Rightarrow> bool" where
  "num_ge n c = (case n of None \<Rightarrow> False | Some i \<Rightarrow> i \<ge> c)"

text \<open>
  \<^verbatim>\<open>x.toFixed(f)\<close> on a finite number: the integer \<open>n\<close> nearest to \<open>|x| \<cdot> 10\<^sup>f\<close>, the larger
  one of two, printed with \<open>f\<close> digits after the point; from \<open>10\<^sup>2\<^sup>1\<close> on, the number's
  own string.
\<close>

definition toFixed :: "runtime \<Rightarrow> nat \<Rightarrow> real \<Rightarrow> string" where
  "toFixed rt f x =
     (let s = (if x < 0 then ''-'' else []);
          a = \<bar>x\<bar>
      in if 10 ^ 21 \<le> a then s @ numToString rt a
         else
           let n = nat \<lfloor>a * 10 ^ f + 1 / 2\<rfloor>;
               m = showNat n;
               z = replicate (f + 1 - length m) (CHR ''0'') @ m;
               k = length z - f
           in if f = 0 then s @ m else s @ take k z @ ''.'' @ drop k z)"

subsection \<open>Method calls\<close>

text \<open>
  A method call on \<^verbatim>\<open>null\<close> or \<^verbatim>\<open>undefined\<close> is a TypeError, and so is a call of a method
  the value does not have. \<open>opt_\<close> is the call behind \<^verbatim>\<open>?.\<close>, which gives \<^verbatim>\<open>undefined\<close> on
  \<^verbatim>\<open>null\<close> and \<^verbatim>\<open>undefined\<close>.
\<close>

fun call_toFixed :: "runtime \<Rightarrow> jsval \<Rightarrow> nat \<Rightarrow> error + string" where
  "call_toFixed rt (JNum r) f = Inr (toFixed rt f r)"
| "call_toFixed rt JNaN f = Inr ''NaN''"
| "call_toFixed rt v f = Inl TypeError"

definition opt_toFixed :: "runtime \<Rightarrow> jsval \<Rightarrow> nat \<Rightarrow> error + jsval" where
  "opt_toFixed rt v f =
     (if nullish v then Inr JUndefined else bindE (call_toFixed rt v f) (\<lambda>s. Inr (JStr s)))"

text \<open>\<^verbatim>\<open>v.slice(0, n)\<close>, of arrays and of strings.\<close>

fun call_slice :: "jsval \<Rightarrow> nat \<Rightarrow> error + jsval" where
  "call_slice (JArr xs) n = Inr (JArr (take n xs))"
| "call_slice (JStr s) n = Inr (JStr (take n s))"
| "call_slice v n = Inl TypeError"

definition opt_slice :: "jsval \<Rightarrow> nat \<Rightarrow> error + jsval" where
  "opt_slice v n = (if nullish v then Inr JUndefined else call_slice v n)"

definition upperChar :: "char \<Rightarrow> char" where
  "upperChar c =
     (let n = (of_char c :: nat) in if 97 \<le> n \<and> n \<le> 122 then char_of (n - 32) else c)"

definition lowerChar :: "char \<Rightarrow> char" where
  "lowerChar c =
     (let n = (of_char c :: nat) in if 65 \<le> n \<and> n \<le> 90 then char_of (n + 32) else c)"

fun call_toUpperCase :: "jsval \<Rightarrow> error + jsval" where
  "call_toUpperCase (JStr s) = Inr (JStr (map upperChar s))"
| "call_toUpperCase v = Inl TypeError"

definition opt_toUpperCase :: "jsval \<Rightarrow> error + jsval" where
  "opt_toUpperCase v = (if nullish v then Inr JUndefined else call_toUpperCase v)"

text \<open>
  The message of the TypeError that \<^verbatim>\<open>token.toLowerCase()\<close> raises on a value with no such
  method is JavaScript's own; only that it is a TypeError matters below.
\<close>

fun call_toLowerCase :: "jsval \<Rightarrow> error + string" where
  "call_toLowerCase (JStr s) = Inr (map lowerChar s)"
| "call_toLowerCase v = Inl TypeError"

text \<open>\<^verbatim>\<open>for (const x of v)\<close>: the elements of an array, the characters of a string.\<close>

fun iterate :: "jsval \<Rightarrow> error + jsval list" where
  "iterate (JArr xs) = Inr xs"
| "iterate (JStr s) = Inr (map (\<lambda>c. JStr [c]) s)"
| "iterate v = Inl TypeError"

subsection \<open>Array methods, sorting, errors caught\<close>

text \<open>\<^verbatim>\<open>xs.filter(f)\<close> and \<^verbatim>\<open>xs.map(f)\<close> with a callback that may raise: the first raise ends
  the call.\<close>

fun filterE :: "('a \<Rightarrow> error + bool) \<Rightarrow> 'a list \<Rightarrow> error + 'a list" where
  "filterE f [] = Inr []"
| "filterE f (x # xs) =
     bindE (f x) (\<lambda>keep. bindE (filterE f xs) (\<lambda>ys. Inr (if keep then x # ys else ys)))"

fun mapE :: "('a \<Rightarrow> error + 'b) \<Rightarrow> 'a list \<Rightarrow> error + 'b list" where
  "mapE f [] = Inr []"
| "mapE f (x # xs) = bindE (f x) (\<lambda>y. bindE (mapE f xs) (\<lambda>ys. Inr (y # ys)))"

text \<open>\<^verbatim>\<open>v.map(f)\<close> and \<^verbatim>\<open>v.filter(f)\<close> on a value: only arrays have the methods.\<close>

fun call_map :: "jsval \<Rightarrow> (jsval \<Rightarrow> error + jsval) \<Rightarrow> error + jsval" where
  "call_map (JArr xs) f = bindE (mapE f xs) (\<lambda>ys. Inr (JArr ys))"
| "call_map v f = Inl TypeError"

fun call_filter :: "jsval \<Rightarrow> (jsval \<Rightarrow> error + bool) \<Rightarrow> error + jsval list" where
  "call_filter (JArr xs) f = filterE f xs"
| "call_filter v f = Inl TypeError"

text \<open>\<^verbatim>\<open>v?.slice(0, n).map(f)\<close>: the whole chain is \<^verbatim>\<open>undefined\<close> when \<open>v\<close> is \<^verbatim>\<open>null\<close> or
  \<^verbatim>\<open>undefined\<close>.\<close>

definition opt_slice_map :: "jsval \<Rightarrow> nat \<Rightarrow> (jsval \<Rightarrow> error + jsval) \<Rightarrow> error + jsval" where
  "opt_slice_map v n f =
     (if nullish v then Inr JUndefined else bindE (call_slice v n) (\<lambda>s. call_map s f))"

text \<open>
  \<^verbatim>\<open>v.includes(name)\<close>: membership in an array, containment in a string, a TypeError on
  everything else.
\<close>

fun call_includes :: "jsval \<Rightarrow> string \<Rightarrow> error + bool" where
  "call_includes (JArr xs) name = Inr (JStr name \<in> set xs)"
| "call_includes (JStr s) name = Inr (sublist name s)"
| "call_includes v name = Inl TypeError"

text \<open>\<^verbatim>\<open>a - b\<close>, \<open>None\<close> for NaN.\<close>

definition js_minus :: "runtime \<Rightarrow> jsval \<Rightarrow> jsval \<Rightarrow> real option" where
  "js_minus rt a b =
     (case toNumber rt a of None \<Rightarrow> None
      | Some x \<Rightarrow> (case toNumber rt b of None \<Rightarrow> None | Some y \<Rightarrow> Some (x - y)))"

text \<open>
  \<^verbatim>\<open>xs.sort(cmp)\<close>. The sort is stable; an element goes before the elements the
  comparator does not put it after, a NaN from the comparator counting as 0. This is the
  order of JavaScript's sort whenever the comparator is consistent, as the one of
  \<open>fetchTopDeFi\<close> is on what its filter lets through.
\<close>

definition cmp_le0 :: "real option \<Rightarrow> bool" where
  "cmp_le0 v = (case v of None \<Rightarrow> True | Some d \<Rightarrow> d \<le> 0)"

fun insort_cmp :: "('a \<Rightarrow> 'a \<Rightarrow> real option) \<Rightarrow> 'a \<Rightarrow> 'a list \<Rightarrow> 'a list" where
  "insort_cmp cmp x [] = [x]"
| "insort_cmp cmp x (y # ys) =
     (if cmp_le0 (cmp x y) then x # y # ys else y # insort_cmp cmp x ys)"

definition sort_cmp :: "('a \<Rightarrow> 'a \<Rightarrow> real option) \<Rightarrow> 'a list \<Rightarrow> 'a list" where
  "sort_cmp cmp xs = foldr (insort_cmp cmp) xs []"

text \<open>\<^verbatim>\<open>try { ... } catch (err) { ... }\<close> and \<^verbatim>\<open>err.message\<close>.\<close>

definition catchE :: "error + 'a \<Rightarrow> (error \<Rightarrow> error + 'a) \<Rightarrow> error + 'a" where
  "catchE m h = (case m of Inl e \<Rightarrow> h e | Inr x \<Rightarrow> Inr x)"

fun message :: "runtime \<Rightarrow> error \<Rightarrow> string" where
  "message rt (Error msg) = msg"
| "message rt e = nativeMessage rt e"

section \<open>The Source Clients\<close>

text \<open>
  What \<^verbatim>\<open>await fetch(url)\<close> gives is an input of the model: the promise rejects (\<open>Inl\<close>) or
  resolves to a response, of which the program reads \<^verbatim>\<open>ok\<close> and the body.
  \<^verbatim>\<open>res.json()\<close> rejects with a SyntaxError on a body that is not JSON (\<open>body = None\<close>).
\<close>

record response =
  ok :: bool
  body :: "jsval option"

type_synonym fetched = "error + response"

definition json :: "response \<Rightarrow> error + jsval" where
  "json res = (case body res of None \<Rightarrow> Inl SyntaxError | Some v \<Rightarrow> Inr v)"

definition fetchFearGreed :: "fetched \<Rightarrow> error + jsval" where
  "fetchFearGreed fetch = bindE fetch json"

definition fetchTrending :: "fetched \<Rightarrow> error + jsval" where
  "fetchTrending fetch = bindE fetch json"

definition fetchTopCoins :: "fetched \<Rightarrow> error + jsval" where
  "fetchTopCoins fetch = bindE fetch json"

text \<open>
  The comparator of \<open>fetchTopDeFi\<close>, \<^verbatim>\<open>(a, b) => (b.tvl || 0) - (a.tvl || 0)\<close>. It is
  called on elements the filter kept, which are not \<^verbatim>\<open>null\<close> or \<^verbatim>\<open>undefined\<close>.
\<close>

definition byTvlDesc :: "runtime \<Rightarrow> jsval \<Rightarrow> jsval \<Rightarrow> real option" where
  "byTvlDesc rt a b =
     js_minus rt (js_or (opt_get b ''tvl'') (JNum 0)) (js_or (opt_get a ''tvl'') (JNum 0))"

definition normalizeProtocol :: "jsval \<Rightarrow> error + jsval" where
  "normalizeProtocol p =
     bindE (get p ''name'') (\<lambda>name.
     bindE (opt_slice (opt_get p ''chains'') 5) (\<lambda>chains.
       Inr (JObj [
         (''name'', name),
         (''category'', opt_get p ''category''),
         (''tvl'', opt_get p ''tvl''),
         (''tvlChange24h'', opt_get p ''change_1d''),
         (''tvlChange7d'', opt_get p ''change_7d''),
         (''chains'', js_or chains (JArr [])),
         (''url'', opt_get p ''url'')])))"

text \<open>The transform of \<open>fetchTopDeFi\<close>: filter, sort, slice, map.\<close>

definition topDeFi :: "runtime \<Rightarrow> jsval \<Rightarrow> error + jsval list" where
  "topDeFi rt protocols =
     bindE (call_filter protocols
              (\<lambda>p. bindE (get p ''tvl'') (\<lambda>tvl. Inr (js_gt rt tvl 0)))) (\<lambda>kept.
       mapE normalizeProtocol (take 10 (sort_cmp (byTvlDesc rt) kept)))"

definition fetchTopDeFi :: "runtime \<Rightarrow> fetched \<Rightarrow> error + jsval" where
  "fetchTopDeFi rt fetch =
     bindE fetch (\<lambda>res.
     bindE (json res) (\<lambda>protocols.
     bindE (topDeFi rt protocols) (\<lambda>out. Inr (JArr out))))"

definition fetchDexVolume :: "fetched \<Rightarrow> error + jsval" where
  "fetchDexVolume fetch =
     bindE fetch (\<lambda>res.
     bindE (json res) (\<lambda>data.
     bindE (get data ''total24h'') (\<lambda>total24h.
       Inr (JObj [
         (''total24h'', total24h),
         (''change24h'', opt_get data ''change_1d''),
         (''change7d'', opt_get data ''change_7d''),
         (''totalAllTime'', opt_get data ''totalAllTime'')]))))"

definition fetchTokenInfo :: "string \<Rightarrow> fetched \<Rightarrow> error + jsval" where
  "fetchTokenInfo tokenId fetch =
     bindE fetch (\<lambda>res.
       if \<not> ok res then Inl (Error (''Token '' @ tokenId @ '' not found''))
       else
         bindE (json res) (\<lambda>data.
         bindE (get data ''id'') (\<lambda>id.
         bindE (opt_toUpperCase (opt_get data ''symbol'')) (\<lambda>symbol.
         bindE (opt_slice (opt_get data ''categories'') 5) (\<lambda>categories.
         bindE (opt_slice (opt_get (opt_get data ''description'') ''en'') 500) (\<lambda>description.
           Inr (JObj [
             (''id'', id),
             (''symbol'', symbol),
             (''name'', opt_get data ''name''),
             (''price'', opt_get (opt_get (opt_get data ''market_data'') ''current_price'') ''usd''),
             (''priceChange24h'',
                opt_get (opt_get data ''market_data'') ''price_change_percentage_24h''),
             (''priceChange7d'',
                opt_get (opt_get data ''market_data'') ''price_change_percentage_7d''),
             (''marketCap'', opt_get (opt_get (opt_get data ''market_data'') ''market_cap'') ''usd''),
             (''marketCapRank'', opt_get data ''market_cap_rank''),
             (''volume24h'',
                opt_get (opt_get (opt_get data ''market_data'') ''total_volume'') ''usd''),
             (''ath'', opt_get (opt_get (opt_get data ''market_data'') ''ath'') ''usd''),
             (''athDate'', opt_get (opt_get (opt_get data ''market_data'') ''ath_date'') ''usd''),
             (''athChangePercentage'',
                opt_get (opt_get (opt_get data ''market_data'') ''ath_change_percentage'') ''usd''),
             (''categories'', js_or categories (JArr [])),
             (''description'', js_or description (JStr []))])))))))"

section \<open>The Signal Engine\<close>

text \<open>
  \<^verbatim>\<open>buildAlphaSignals(fearGreed, trending, topCoins, defi, dexVolume)\<close> pushes onto one array
  \<open>signals\<close>, rule after rule. Each rule is a definition that takes the array so far and
  returns it extended; each \<^verbatim>\<open>for\<close> loop is a recursive function over the elements it
  visits, and its body is the step that says what one iteration pushes.
\<close>

definition fgValue :: "runtime \<Rightarrow> jsval \<Rightarrow> int option" where
  "fgValue rt fearGreed =
     parseInt rt (js_or (opt_get (opt_idx (opt_get fearGreed ''data'') 0) ''value'') (JStr ''50''))"

definition fgClass :: "jsval \<Rightarrow> jsval" where
  "fgClass fearGreed =
     js_or (opt_get (opt_idx (opt_get fearGreed ''data'') 0) ''value_classification'')
       (JStr ''Neutral'')"

definition sentimentRule :: "runtime \<Rightarrow> jsval \<Rightarrow> jsval list \<Rightarrow> jsval list" where
  "sentimentRule rt fearGreed signals =
     (if num_le (fgValue rt fearGreed) 25 then
        signals @ [JObj [
          (''type'', JStr ''sentiment''),
          (''title'', JStr (toStringJ rt (fgClass fearGreed) @ '' (''
             @ toStringJ rt (numJ (fgValue rt fearGreed)) @ '') - Potential Buy Zone'')),
          (''details'',
             JStr ''Extreme fear often precedes market reversals. Consider accumulation.''),
          (''confidence'',
             JStr (if num_le (fgValue rt fearGreed) 15 then ''high'' else ''medium'')),
          (''actionable'', JBool True)]]
      else if num_ge (fgValue rt fearGreed) 75 then
        signals @ [JObj [
          (''type'', JStr ''sentiment''),
          (''title'', JStr (toStringJ rt (fgClass fearGreed) @ '' (''
             @ toStringJ rt (numJ (fgValue rt fearGreed)) @ '') - Caution Zone'')),
          (''details'',
             JStr ''Extreme greed often precedes corrections. Consider taking profits.''),
          (''confidence'',
             JStr (if num_ge (fgValue rt fearGreed) 85 then ''high'' else ''medium'')),
          (''actionable'', JBool True)]]
      else signals)"

definition whaleRule ::
  "runtime \<Rightarrow> jsval \<Rightarrow> jsval \<Rightarrow> jsval list \<Rightarrow> error + jsval list" where
  "whaleRule rt dexVolume topCoins signals =
     (if js_gt rt (opt_get dexVolume ''change24h'') 5
         \<and> js_lt rt (opt_get (opt_idx topCoins 0) ''price_change_percentage_24h'') (- 2)
      then
        bindE (get dexVolume ''change24h'') (\<lambda>change24h.
        bindE (call_toFixed rt change24h 1) (\<lambda>chg.
          Inr (signals @ [JObj [
            (''type'', JStr ''whale''),
            (''title'', JStr ''Volume/Price Divergence - Smart Money Repositioning''),
            (''details'', JStr (''DEX volume up '' @ chg
               @ ''% while prices down. Potential accumulation.'')),
            (''confidence'', JStr ''medium''),
            (''actionable'', JBool True)]])))
      else Inr signals)"

definition narrativeStep :: "runtime \<Rightarrow> jsval \<Rightarrow> error + jsval list" where
  "narrativeStep rt coin =
     bindE (get coin ''item'') (\<lambda>item.
       let priceChange =
             opt_get (opt_get (opt_get item ''data'') ''price_change_percentage_24h'') ''usd''
       in if js_gt rt priceChange 10 then
            bindE (opt_toUpperCase (opt_get item ''symbol'')) (\<lambda>asset.
            bindE (call_toFixed rt priceChange 1) (\<lambda>pc.
              Inr [JObj [
                (''type'', JStr ''narrative''),
                (''asset'', asset),
                (''title'',
                   JStr (toStringJ rt (opt_get item ''name'') @ '' trending +'' @ pc @ ''%'')),
                (''details'', JStr (''Rank #''
                   @ toStringJ rt (js_or (opt_get item ''market_cap_rank'') (JStr ''?''))
                   @ '', strong momentum against market'')),
                (''confidence'', JStr ''medium''),
                (''actionable'', JBool True)]]))
          else Inr [])"

fun narrativeLoop :: "runtime \<Rightarrow> jsval list \<Rightarrow> jsval list \<Rightarrow> error + jsval list" where
  "narrativeLoop rt [] signals = Inr signals"
| "narrativeLoop rt (coin # rest) signals =
     bindE (narrativeStep rt coin) (\<lambda>pushed. narrativeLoop rt rest (signals @ pushed))"

text \<open>\<^verbatim>\<open>(v / 1e9).toFixed(2)\<close>: the quotient is NaN when \<open>v\<close> does not convert to a number.\<close>

definition billions :: "runtime \<Rightarrow> jsval \<Rightarrow> string" where
  "billions rt v =
     (case toNumber rt v of None \<Rightarrow> ''NaN'' | Some t \<Rightarrow> toFixed rt 2 (t / 1000000000))"

definition protocolStep :: "runtime \<Rightarrow> jsval \<Rightarrow> error + jsval list" where
  "protocolStep rt protocol =
     bindE (get protocol ''tvlChange7d'') (\<lambda>tvlChange7d.
       if js_gt rt tvlChange7d 10 then
         bindE (call_toFixed rt tvlChange7d 1) (\<lambda>chg.
           Inr [JObj [
             (''type'', JStr ''protocol''),
             (''asset'', opt_get protocol ''name''),
             (''title'', JStr (toStringJ rt (opt_get protocol ''name'') @ '' TVL up '' @ chg
                @ ''% weekly'')),
             (''details'', JStr (''Category: '' @ toStringJ rt (opt_get protocol ''category'')
                @ '', TVL: $'' @ billions rt (opt_get protocol ''tvl'') @ ''B'')),
             (''confidence'', JStr ''medium''),
             (''actionable'', JBool True)]])
       else Inr [])"

fun protocolLoop :: "runtime \<Rightarrow> jsval list \<Rightarrow> jsval list \<Rightarrow> error + jsval list" where
  "protocolLoop rt [] signals = Inr signals"
| "protocolLoop rt (protocol # rest) signals =
     bindE (protocolStep rt protocol) (\<lambda>pushed. protocolLoop rt rest (signals @ pushed))"

definition buildAlphaSignals ::
  "runtime \<Rightarrow> jsval \<Rightarrow> jsval \<Rightarrow> jsval \<Rightarrow> jsval \<Rightarrow> jsval \<Rightarrow> error + jsval list" where
  "buildAlphaSignals rt fearGreed trending topCoins defi dexVolume =
     bindE (Inr (sentimentRule rt fearGreed [])) (\<lambda>signals.
     bindE (whaleRule rt dexVolume topCoins signals) (\<lambda>signals.
     let trendingCoins = js_or (opt_get trending ''coins'') (JArr []) in
     bindE (bindE (call_slice trendingCoins 3) iterate) (\<lambda>coins.
     bindE (narrativeLoop rt coins signals) (\<lambda>signals.
     bindE (bindE (call_slice defi 3) iterate) (\<lambda>protocols.
       protocolLoop rt protocols signals)))))"

section \<open>The operations\<close>

text \<open>
  One definition per route handler, named by its path
  \<^verbatim>\<open>/entrypoints/<key>/invoke\<close>. A handler returns the object it passes to \<^verbatim>\<open>c.json\<close>,
  or raises. The request is the parsed body of the call, \<open>None\<close> when it has no JSON body
  (\<^verbatim>\<open>c.req.json().catch(() => ({}))\<close>). The upstream is what each of the five URLs of the
  multi-source operations answers.
\<close>

record upstream =
  fng :: fetched
  search_trending :: fetched
  coins_markets :: fetched
  llama_protocols :: fetched
  overview_dexs :: fetched

definition requestBody :: "jsval option \<Rightarrow> jsval" where
  "requestBody req = (case req of None \<Rightarrow> JObj [] | Some b \<Rightarrow> b)"

text \<open>\<^verbatim>\<open>{ run_id: crypto.randomUUID(), status, output }\<close>\<close>

definition reply :: "runtime \<Rightarrow> string \<Rightarrow> jsval \<Rightarrow> jsval" where
  "reply rt status output =
     JObj [(''run_id'', JStr (randomUUID rt)), (''status'', JStr status), (''output'', output)]"

text \<open>\<^verbatim>\<open>v?.map(f)\<close>\<close>

definition opt_map :: "jsval \<Rightarrow> (jsval \<Rightarrow> error + jsval) \<Rightarrow> error + jsval" where
  "opt_map v f = (if nullish v then Inr JUndefined else call_map v f)"

subsection \<open>fear-greed\<close>

text \<open>
  \<^verbatim>\<open>new Date(parseInt(d.timestamp) * 1000).toISOString().split('T')[0]\<close>: a RangeError when
  the time value is NaN or beyond \<open>8.64 \<cdot> 10\<^sup>1\<^sup>5\<close> milliseconds.
\<close>

definition isoDateOf :: "runtime \<Rightarrow> int option \<Rightarrow> error + string" where
  "isoDateOf rt seconds =
     (case seconds of
        None \<Rightarrow> Inl RangeError
      | Some s \<Rightarrow>
          if \<bar>s * 1000\<bar> \<le> 8640000000000000 then Inr (isoDate rt (s * 1000))
          else Inl RangeError)"

definition historyEntry :: "runtime \<Rightarrow> jsval \<Rightarrow> error + jsval" where
  "historyEntry rt d =
     bindE (get d ''value'') (\<lambda>v.
     bindE (isoDateOf rt (parseInt rt (opt_get d ''timestamp''))) (\<lambda>date.
       Inr (JObj [
         (''value'', numJ (parseInt rt v)),
         (''classification'', opt_get d ''value_classification''),
         (''date'', JStr date)])))"

definition fear_greed_invoke :: "runtime \<Rightarrow> fetched \<Rightarrow> error + jsval" where
  "fear_greed_invoke rt fetch =
     bindE (fetchFearGreed fetch) (\<lambda>data.
     bindE (get data ''data'') (\<lambda>dd.
     bindE (opt_map dd (historyEntry rt)) (\<lambda>history.
       let current = parseInt rt (js_or (opt_get (opt_idx dd 0) ''value'') (JStr ''50'')) in
       Inr (reply rt ''succeeded'' (JObj [
         (''current'', JObj [
            (''value'', numJ current),
            (''classification'',
               js_or (opt_get (opt_idx dd 0) ''value_classification'') (JStr ''Unknown''))]),
         (''history'', js_or history (JArr [])),
         (''interpretation'', JStr (
            if num_le current 25 then ''Extreme fear often signals buying opportunities''
            else if num_ge current 75 then ''Extreme greed may signal market tops''
            else ''Market sentiment is neutral to moderate''))])))))"

subsection \<open>daily-alpha\<close>

text \<open>\<^verbatim>\<open>sources.includes(name) ? fetchIt() : null\<close>\<close>

definition whenSelected :: "jsval \<Rightarrow> string \<Rightarrow> error + jsval \<Rightarrow> error + jsval" where
  "whenSelected sources name fetchIt =
     bindE (call_includes sources name) (\<lambda>selected. if selected then fetchIt else Inr JNull)"

definition trendingBrief :: "jsval \<Rightarrow> error + jsval" where
  "trendingBrief c =
     bindE (get c ''item'') (\<lambda>item.
     bindE (opt_toUpperCase (opt_get item ''symbol'')) (\<lambda>symbol.
       Inr (JObj [
         (''symbol'', symbol),
         (''name'', opt_get item ''name''),
         (''rank'', opt_get item ''market_cap_rank'')])))"

definition defiBrief :: "runtime \<Rightarrow> jsval \<Rightarrow> error + jsval" where
  "defiBrief rt p =
     bindE (get p ''name'') (\<lambda>name.
       Inr (JObj [
         (''name'', name),
         (''tvl'', JStr (''$'' @ billions rt (opt_get p ''tvl'') @ ''B'')),
         (''category'', opt_get p ''category'')]))"

text \<open>What the handler does with the five values once it has them.\<close>

definition digest ::
  "runtime \<Rightarrow> jsval \<Rightarrow> jsval \<Rightarrow> jsval \<Rightarrow> jsval \<Rightarrow> jsval \<Rightarrow> error + jsval" where
  "digest rt fearGreed trending topCoins defi dexVolume =
     bindE (buildAlphaSignals rt fearGreed trending topCoins defi dexVolume) (\<lambda>signals.
     bindE (opt_slice_map (opt_get trending ''coins'') 5 trendingBrief) (\<lambda>trending5.
     bindE (opt_slice_map defi 5 (defiBrief rt)) (\<lambda>topDeFi5.
       Inr (reply rt ''succeeded'' (JObj [
         (''timestamp'', JStr (nowISO rt)),
         (''summary'', JStr (
            if length signals > 0 then showNat (length signals) @ '' alpha signals detected''
            else ''No strong signals - market neutral'')),
         (''marketContext'', JObj [
            (''fearGreedIndex'', numJ (parseInt rt
               (js_or (opt_get (opt_idx (opt_get fearGreed ''data'') 0) ''value'') (JStr ''50'')))),
            (''fearGreedClass'',
               js_or (opt_get (opt_idx (opt_get fearGreed ''data'') 0) ''value_classification'')
                 (JStr ''Unknown'')),
            (''btcPrice'', opt_get (opt_idx topCoins 0) ''current_price''),
            (''btcChange24h'', opt_get (opt_idx topCoins 0) ''price_change_percentage_24h''),
            (''ethPrice'', opt_get (opt_idx topCoins 1) ''current_price''),
            (''ethChange24h'', opt_get (opt_idx topCoins 1) ''price_change_percentage_24h''),
            (''dexVolume24h'', opt_get dexVolume ''total24h''),
            (''dexVolumeChange'', opt_get dexVolume ''change24h'')]),
         (''signals'', JArr signals),
         (''trending'', js_or trending5 (JArr [])),
         (''topDeFi'', js_or topDeFi5 (JArr [])),
         (''disclaimer'', JStr ''Not financial advice. DYOR.'')])))))"

text \<open>
  \<^verbatim>\<open>Promise.all\<close> rejects as soon as one of the five promises does; which rejection it
  reports when several reject is a matter of timing, and the model reports the first in the
  order of the array.
\<close>

definition daily_alpha_invoke :: "runtime \<Rightarrow> jsval option \<Rightarrow> upstream \<Rightarrow> error + jsval" where
  "daily_alpha_invoke rt req up =
     bindE (get (requestBody req) ''input'') (\<lambda>i.
     let input = js_or i (JObj []) in
     bindE (get input ''sources'') (\<lambda>s.
     let sources = js_or s (JArr [JStr ''coingecko'', JStr ''defillama'', JStr ''feargreed'']) in
     bindE (whenSelected sources ''feargreed'' (fetchFearGreed (fng up))) (\<lambda>fearGreed.
     bindE (whenSelected sources ''coingecko'' (fetchTrending (search_trending up))) (\<lambda>trending.
     bindE (whenSelected sources ''coingecko'' (fetchTopCoins (coins_markets up))) (\<lambda>topCoins.
     bindE (whenSelected sources ''defillama'' (fetchTopDeFi rt (llama_protocols up))) (\<lambda>defi.
     bindE (whenSelected sources ''defillama'' (fetchDexVolume (overview_dexs up))) (\<lambda>dexVolume.
       digest rt fearGreed trending topCoins defi dexVolume)))))))"

subsection \<open>trending\<close>

definition trendingEntry :: "jsval \<Rightarrow> error + jsval" where
  "trendingEntry coin =
     bindE (get coin ''item'') (\<lambda>item.
     bindE (opt_toUpperCase (opt_get item ''symbol'')) (\<lambda>symbol.
       Inr (JObj [
         (''symbol'', symbol),
         (''name'', opt_get item ''name''),
         (''rank'', opt_get item ''market_cap_rank''),
         (''price'', opt_get (opt_get item ''data'') ''price''),
         (''priceChange24h'',
            opt_get (opt_get (opt_get item ''data'') ''price_change_percentage_24h'') ''usd''),
         (''marketCap'', opt_get (opt_get item ''data'') ''market_cap'')])))"

definition nftEntry :: "jsval \<Rightarrow> error + jsval" where
  "nftEntry n =
     bindE (get n ''name'') (\<lambda>name.
       Inr (JObj [
         (''name'', name),
         (''floorPrice'', opt_get (opt_get n ''data'') ''floor_price''),
         (''change24h'',
            opt_get (opt_get n ''data'') ''floor_price_in_usd_24h_percentage_change'')]))"

definition trending_invoke :: "runtime \<Rightarrow> fetched \<Rightarrow> error + jsval" where
  "trending_invoke rt fetch =
     bindE (fetchTrending fetch) (\<lambda>data.
     bindE (get data ''coins'') (\<lambda>cs.
     bindE (opt_slice_map cs 10 trendingEntry) (\<lambda>coins10.
     bindE (get data ''nfts'') (\<lambda>ns.
     bindE (opt_slice_map ns 5 nftEntry) (\<lambda>nfts5.
       Inr (reply rt ''succeeded'' (JObj [
         (''timestamp'', JStr (nowISO rt)),
         (''coins'', js_or coins10 (JArr [])),
         (''nfts'', js_or nfts5 (JArr []))])))))))"

subsection \<open>defi-stats\<close>

definition protocolEntry :: "runtime \<Rightarrow> jsval \<Rightarrow> error + jsval" where
  "protocolEntry rt p =
     bindE (get p ''name'') (\<lambda>name.
     bindE (opt_toFixed rt (opt_get p ''tvlChange24h'') 1) (\<lambda>change24h.
     bindE (opt_toFixed rt (opt_get p ''tvlChange7d'') 1) (\<lambda>change7d.
       Inr (JObj [
         (''name'', name),
         (''category'', opt_get p ''category''),
         (''tvl'', JStr (''$'' @ billions rt (opt_get p ''tvl'') @ ''B'')),
         (''change24h'', JStr (toStringJ rt change24h @ ''%'')),
         (''change7d'', JStr (toStringJ rt change7d @ ''%'')),
         (''chains'', opt_get p ''chains'')]))))"

definition defi_stats_invoke :: "runtime \<Rightarrow> upstream \<Rightarrow> error + jsval" where
  "defi_stats_invoke rt up =
     bindE (fetchTopDeFi rt (llama_protocols up)) (\<lambda>protocols.
     bindE (fetchDexVolume (overview_dexs up)) (\<lambda>dexVolume.
     bindE (get dexVolume ''total24h'') (\<lambda>total24h.
     bindE (opt_toFixed rt (opt_get dexVolume ''change24h'') 1) (\<lambda>change24h.
     bindE (opt_toFixed rt (opt_get dexVolume ''change7d'') 1) (\<lambda>change7d.
     bindE (call_map protocols (protocolEntry rt)) (\<lambda>topProtocols.
       Inr (reply rt ''succeeded'' (JObj [
         (''timestamp'', JStr (nowISO rt)),
         (''dexVolume'', JObj [
            (''total24h'', JStr (''$'' @ billions rt total24h @ ''B'')),
            (''change24h'', JStr (toStringJ rt change24h @ ''%'')),
            (''change7d'', JStr (toStringJ rt change7d @ ''%''))]),
         (''topProtocols'', topProtocols)]))))))))"

subsection \<open>token-intel\<close>

text \<open>
  \<open>coins_id\<close> is what the single-asset URL answers for each id. The handler reads the
  request, then runs one \<^verbatim>\<open>try\<close>/\<^verbatim>\<open>catch\<close>: \<open>tokenReport\<close> is the \<^verbatim>\<open>try\<close> block from the
  call of \<open>fetchTokenInfo\<close> on, \<open>tokenFailure\<close> the \<^verbatim>\<open>catch\<close> block. The call
  \<^verbatim>\<open>token.toLowerCase()\<close> is inside the \<^verbatim>\<open>try\<close>.
\<close>

definition tokenReport :: "runtime \<Rightarrow> string \<Rightarrow> fetched \<Rightarrow> error + jsval" where
  "tokenReport rt tokenId fetch =
     bindE (fetchTokenInfo tokenId fetch) (\<lambda>data.
     bindE (opt_toFixed rt (opt_get data ''athChangePercentage'') 1) (\<lambda>fromATH.
       Inr (reply rt ''succeeded'' (JObj [
         (''timestamp'', JStr (nowISO rt)),
         (''token'', data),
         (''analysis'', JObj [
            (''fromATH'', JStr (toStringJ rt fromATH @ ''%'')),
            (''momentum'', JStr (
               if js_gt rt (opt_get data ''priceChange7d'') 0 then ''bullish''
               else if js_lt rt (opt_get data ''priceChange7d'') (- 10) then ''bearish''
               else ''neutral''))])]))))"

definition tokenFailure :: "runtime \<Rightarrow> error \<Rightarrow> error + jsval" where
  "tokenFailure rt err =
     Inr (reply rt ''failed'' (JObj [
       (''error'', JStr (message rt err)),
       (''suggestion'', JStr ''Use CoinGecko token ID (e.g., bitcoin, ethereum)'')]))"

definition token_intel_invoke ::
  "runtime \<Rightarrow> jsval option \<Rightarrow> (string \<Rightarrow> fetched) \<Rightarrow> error + jsval" where
  "token_intel_invoke rt req coins_id =
     bindE (get (requestBody req) ''input'') (\<lambda>i.
     let input = js_or i (JObj []) in
     bindE (get input ''token'') (\<lambda>t.
     let token = js_or t (JStr ''bitcoin'') in
     catchE
       (bindE (call_toLowerCase token) (\<lambda>tokenId.
          tokenReport rt tokenId (coins_id tokenId)))
       (tokenFailure rt)))"

section \<open>Observations and worked inputs\<close>

text \<open>What the properties below speak of: the signals of one type in a list, a field of a
  response, what a request asks for, inputs of the documented shape.\<close>

definition ofType :: "string \<Rightarrow> jsval list \<Rightarrow> jsval list" where
  "ofType t signals = filter (\<lambda>s. opt_get s ''type'' = JStr t) signals"

definition isSignal :: "string \<Rightarrow> string \<Rightarrow> jsval \<Rightarrow> bool" where
  "isSignal t c s = (opt_get s ''type'' = JStr t \<and> opt_get s ''confidence'' = JStr c)"

definition hasType :: "string \<Rightarrow> jsval \<Rightarrow> bool" where
  "hasType t s = (opt_get s ''type'' = JStr t)"

text \<open>The conditions of the two loops, on one element.\<close>

definition narrativeQualifies :: "runtime \<Rightarrow> jsval \<Rightarrow> bool" where
  "narrativeQualifies rt coin =
     js_gt rt (opt_get (opt_get (opt_get (opt_get coin ''item'') ''data'')
       ''price_change_percentage_24h'') ''usd'') 10"

definition protocolQualifies :: "runtime \<Rightarrow> jsval \<Rightarrow> bool" where
  "protocolQualifies rt protocol = js_gt rt (opt_get protocol ''tvlChange7d'') 10"

text \<open>The TVL of an entry as a number; 0 stands in where it is not one.\<close>

definition tvlOf :: "runtime \<Rightarrow> jsval \<Rightarrow> real" where
  "tvlOf rt p = (case toNumber rt (opt_get p ''tvl'') of None \<Rightarrow> 0 | Some t \<Rightarrow> t)"

definition positiveTvl :: "runtime \<Rightarrow> jsval \<Rightarrow> bool" where
  "positiveTvl rt p = js_gt rt (opt_get p ''tvl'') 0"

text \<open>A property of a value, by the names on the way to it.\<close>

definition path :: "jsval \<Rightarrow> string list \<Rightarrow> jsval" where
  "path v ks = foldl opt_get v ks"

text \<open>
  The first reading of the sentiment payload, \<^verbatim>\<open>data?.[0]\<close>, and the two fields every
  reader takes from it.
\<close>

definition rawValue :: "jsval \<Rightarrow> jsval" where
  "rawValue fearGreed = opt_get (opt_idx (opt_get fearGreed ''data'') 0) ''value''"

definition rawClass :: "jsval \<Rightarrow> jsval" where
  "rawClass fearGreed = opt_get (opt_idx (opt_get fearGreed ''data'') 0) ''value_classification''"

text \<open>A decimal digit, as \<open>showNat\<close> prints them.\<close>

definition isDec :: "char \<Rightarrow> bool" where
  "isDec c = (c \<in> set ''0123456789'')"

text \<open>What a request selects and names, when its body is not \<^verbatim>\<open>null\<close>.\<close>

definition requestInput :: "jsval option \<Rightarrow> jsval" where
  "requestInput req = js_or (opt_get (requestBody req) ''input'') (JObj [])"

definition requestSources :: "jsval option \<Rightarrow> jsval" where
  "requestSources req =
     js_or (opt_get (requestInput req) ''sources'')
       (JArr [JStr ''coingecko'', JStr ''defillama'', JStr ''feargreed''])"

definition requestToken :: "jsval option \<Rightarrow> jsval" where
  "requestToken req = js_or (opt_get (requestInput req) ''token'') (JStr ''bitcoin'')"

definition selects :: "jsval option \<Rightarrow> string \<Rightarrow> bool" where
  "selects req name = (call_includes (requestSources req) name = Inr True)"

text \<open>
  An upstream call that failed: the transport raised, or the body that came back is not
  JSON. And an upstream as it would be had every answer come with a success status.
\<close>

definition failed :: "fetched \<Rightarrow> bool" where
  "failed fetch = (case fetch of Inl e \<Rightarrow> True | Inr res \<Rightarrow> body res = None)"

definition withStatus :: "bool \<Rightarrow> fetched \<Rightarrow> fetched" where
  "withStatus b fetch = (case fetch of Inl e \<Rightarrow> Inl e | Inr res \<Rightarrow> Inr (res\<lparr>ok := b\<rparr>))"

definition upstreamWithStatus :: "bool \<Rightarrow> upstream \<Rightarrow> upstream" where
  "upstreamWithStatus b up = \<lparr>
     fng = withStatus b (fng up),
     search_trending = withStatus b (search_trending up),
     coins_markets = withStatus b (coins_markets up),
     llama_protocols = withStatus b (llama_protocols up),
     overview_dexs = withStatus b (overview_dexs up) \<rparr>"

definition answered :: "jsval \<Rightarrow> fetched" where
  "answered v = Inr \<lparr>ok = True, body = Some v\<rparr>"

definition notFound :: fetched where
  "notFound = Inr \<lparr>ok = False, body = Some (JObj [(''error'', JStr ''coin not found'')])\<rparr>"

text \<open>
  Inputs of the shape the upstreams document: a field that a rule compares is a number when
  it is there, the symbol of a trending asset is a string, a list is a list, and no element
  of a list is \<^verbatim>\<open>null\<close>. The Signal Engine reads the first three elements of its two lists.
\<close>

fun isNumOrAbsent :: "jsval \<Rightarrow> bool" where
  "isNumOrAbsent JUndefined = True"
| "isNumOrAbsent JNull = True"
| "isNumOrAbsent (JNum r) = True"
| "isNumOrAbsent v = False"

fun isStrOrAbsent :: "jsval \<Rightarrow> bool" where
  "isStrOrAbsent JUndefined = True"
| "isStrOrAbsent JNull = True"
| "isStrOrAbsent (JStr s) = True"
| "isStrOrAbsent v = False"

fun isListOrAbsent :: "jsval \<Rightarrow> bool" where
  "isListOrAbsent JUndefined = True"
| "isListOrAbsent JNull = True"
| "isListOrAbsent (JArr xs) = True"
| "isListOrAbsent v = False"

definition elements :: "jsval \<Rightarrow> jsval list" where
  "elements v = (case v of JArr xs \<Rightarrow> xs | _ \<Rightarrow> [])"

definition wellFormedCoin :: "jsval \<Rightarrow> bool" where
  "wellFormedCoin coin =
     (\<not> nullish coin
      \<and> isStrOrAbsent (opt_get (opt_get coin ''item'') ''symbol'')
      \<and> isNumOrAbsent (opt_get (opt_get (opt_get (opt_get coin ''item'') ''data'')
            ''price_change_percentage_24h'') ''usd''))"

definition wellFormedProtocol :: "jsval \<Rightarrow> bool" where
  "wellFormedProtocol p = (\<not> nullish p \<and> isNumOrAbsent (opt_get p ''tvlChange7d''))"

definition wellFormedRaw :: "jsval \<Rightarrow> bool" where
  "wellFormedRaw p = (\<not> nullish p \<and> isListOrAbsent (opt_get p ''chains''))"

definition wellFormedInputs :: "jsval \<Rightarrow> jsval \<Rightarrow> jsval \<Rightarrow> bool" where
  "wellFormedInputs trending defi dexVolume =
     (isNumOrAbsent (opt_get dexVolume ''change24h'')
      \<and> isListOrAbsent (opt_get trending ''coins'')
      \<and> list_all wellFormedCoin (take 3 (elements (opt_get trending ''coins'')))
      \<and> (case defi of JArr ps \<Rightarrow> list_all wellFormedProtocol (take 3 ps) | _ \<Rightarrow> False))"

text \<open>
  A runtime for the worked examples. It prints and reads whole numbers; the examples put
  nothing else through its two conversions.
\<close>

definition exampleRuntime :: runtime where
  "exampleRuntime = \<lparr>
     numberToString = (\<lambda>r. showInt \<lfloor>r\<rfloor>),
     stringToNumber = (\<lambda>s. map_option of_int (parseIntStr s)),
     randomUUID = ''123e4567-e89b-42d3-a456-426614174000'',
     nowISO = ''2026-02-09T08:40:55.000Z'',
     isoDate = (\<lambda>ms. ''2026-02-09''),
     nativeMessage = (\<lambda>e. ''failed'') \<rparr>"

definition fearGreedOf :: "string \<Rightarrow> string \<Rightarrow> jsval" where
  "fearGreedOf v c = JObj [(''data'', JArr [JObj [(''value'', JStr v),
     (''value_classification'', JStr c), (''timestamp'', JStr ''1770595200'')]])]"

definition trendingCoin :: "string \<Rightarrow> string \<Rightarrow> real \<Rightarrow> jsval" where
  "trendingCoin sy nm chg = JObj [(''item'', JObj [(''symbol'', JStr sy), (''name'', JStr nm),
     (''market_cap_rank'', JNum 7),
     (''data'', JObj [(''price_change_percentage_24h'', JObj [(''usd'', JNum chg)])])])]"

definition fiveTrending :: jsval where
  "fiveTrending = JObj [(''coins'', JArr [trendingCoin ''aa'' ''Aa'' 12, trendingCoin ''bb'' ''Bb'' 8,
     trendingCoin ''cc'' ''Cc'' 15, trendingCoin ''dd'' ''Dd'' 20, trendingCoin ''ee'' ''Ee'' 5])]"

definition marketsOf :: "real \<Rightarrow> jsval" where
  "marketsOf chg = JArr [JObj [(''symbol'', JStr ''btc''), (''current_price'', JNum 97000),
     (''price_change_percentage_24h'', JNum chg)]]"

definition dexVolumeOf :: "real \<Rightarrow> jsval" where
  "dexVolumeOf chg = JObj [(''total24h'', JNum 8500000000), (''change24h'', JNum chg),
     (''change7d'', JNum 1), (''totalAllTime'', JNum 9000000000000)]"

definition oneProtocol :: jsval where
  "oneProtocol = JArr [JObj [(''name'', JStr ''Lido''), (''category'', JStr ''Liquid Staking''),
     (''tvl'', JNum 25000000000), (''tvlChange24h'', JNum 1), (''tvlChange7d'', JNum 12),
     (''chains'', JArr [JStr ''Ethereum'']), (''url'', JStr ''https://lido.fi'')]]"

definition exampleUpstream :: upstream where
  "exampleUpstream = \<lparr>
     fng = answered (fearGreedOf ''20'' ''Extreme Fear''),
     search_trending = answered fiveTrending,
     coins_markets = answered (marketsOf (- 3)),
     llama_protocols = answered (JArr [JObj [(''name'', JStr ''Lido''),
        (''category'', JStr ''Liquid Staking''), (''tvl'', JNum 25000000000),
        (''change_1d'', JNum 1), (''change_7d'', JNum 12)]]),
     overview_dexs = answered (JObj [(''total24h'', JNum 8500000000), (''change_1d'', JNum 6),
        (''change_7d'', JNum 1)]) \<rparr>"

definition onlyFearGreed :: "jsval option" where
  "onlyFearGreed = Some (JObj [(''input'', JObj [(''sources'', JArr [JStr ''feargreed''])])])"

definition tokenRequest :: "string \<Rightarrow> jsval option" where
  "tokenRequest t = Some (JObj [(''input'', JObj [(''token'', JStr t)])])"

section \<open>Properties of the Signal Engine\<close>

lemma bindE_Inr_iff: "bindE m f = Inr y \<longleftrightarrow> (\<exists>x. m = Inr x \<and> f x = Inr y)"
  by (cases m) (simp_all add: bindE_def)

lemma bindE_simps [simp]: "bindE (Inl e) f = Inl e" "bindE (Inr x) f = f x"
  by (simp_all add: bindE_def)

lemma ofType_append: "ofType t (xs @ ys) = ofType t xs @ ofType t ys"
  by (simp add: ofType_def)

lemma ofType_same: "list_all (isSignal t c) xs \<Longrightarrow> ofType t xs = xs"
  by (induction xs) (auto simp: ofType_def isSignal_def)

lemma ofType_other: "list_all (isSignal t c) xs \<Longrightarrow> t \<noteq> t' \<Longrightarrow> ofType t' xs = []"
  by (induction xs) (auto simp: ofType_def isSignal_def)

lemma isSignal_hasType: "list_all (isSignal t c) xs \<Longrightarrow> list_all (hasType t) xs"
  by (induction xs) (auto simp: hasType_def isSignal_def)

lemma sentimentRule_cases:
  "sentimentRule rt fearGreed [] = [] \<and> \<not> num_le (fgValue rt fearGreed) 25
     \<and> \<not> num_ge (fgValue rt fearGreed) 75
   \<or> (\<exists>sg t. sentimentRule rt fearGreed [] = [sg] \<and> num_le (fgValue rt fearGreed) 25
        \<and> opt_get sg ''type'' = JStr ''sentiment''
        \<and> opt_get sg ''title'' = JStr (t @ ''Buy Zone'')
        \<and> opt_get sg ''confidence''
            = JStr (if num_le (fgValue rt fearGreed) 15 then ''high'' else ''medium''))
   \<or> (\<exists>sg t. sentimentRule rt fearGreed [] = [sg] \<and> \<not> num_le (fgValue rt fearGreed) 25
        \<and> num_ge (fgValue rt fearGreed) 75
        \<and> opt_get sg ''type'' = JStr ''sentiment''
        \<and> opt_get sg ''title'' = JStr (t @ ''Caution Zone'')
        \<and> opt_get sg ''confidence''
            = JStr (if num_ge (fgValue rt fearGreed) 85 then ''high'' else ''medium''))"
proof -
  have buy: "\<exists>t. a @ '' ('' @ b @ '') - Potential Buy Zone'' = t @ ''Buy Zone''" for a b :: string
    by (rule exI [of _ "a @ '' ('' @ b @ '') - Potential ''"]) simp
  have caution: "\<exists>t. a @ '' ('' @ b @ '') - Caution Zone'' = t @ ''Caution Zone''" for a b :: string
    by (rule exI [of _ "a @ '' ('' @ b @ '') - ''"]) simp
  show ?thesis
    using buy caution by (simp add: sentimentRule_def)
qed

lemma sentimentRule_shape:
  "length (sentimentRule rt fearGreed []) \<le> 1 \<and>
   list_all (hasType ''sentiment'') (sentimentRule rt fearGreed [])"
  by (simp add: sentimentRule_def hasType_def)

lemma whaleRule_append:
  "whaleRule rt dexVolume topCoins signals = Inr out \<longleftrightarrow>
     (\<exists>w. whaleRule rt dexVolume topCoins [] = Inr w \<and> out = signals @ w)"
  by (auto simp: whaleRule_def bindE_Inr_iff)

lemma whaleRule_shape:
  "whaleRule rt dexVolume topCoins [] = Inr w \<Longrightarrow>
     list_all (isSignal ''whale'' ''medium'') w \<and>
     length w = (if js_gt rt (opt_get dexVolume ''change24h'') 5
        \<and> js_lt rt (opt_get (opt_idx topCoins 0) ''price_change_percentage_24h'') (- 2)
      then 1 else 0)"
  by (auto simp: whaleRule_def isSignal_def bindE_Inr_iff split: if_splits)

lemma narrativeStep_shape:
  "narrativeStep rt coin = Inr pushed \<Longrightarrow>
     list_all (isSignal ''narrative'' ''medium'') pushed \<and>
     length pushed = (if narrativeQualifies rt coin then 1 else 0)"
  by (auto simp: narrativeStep_def narrativeQualifies_def isSignal_def bindE_Inr_iff get_def Let_def
           split: if_splits)

lemma narrativeLoop_steps:
  "narrativeLoop rt coins signals = Inr out \<Longrightarrow>
     \<exists>ps. list_all2 (\<lambda>c l. narrativeStep rt c = Inr l) coins ps \<and> out = signals @ concat ps"
proof (induction coins arbitrary: signals out)
  case Nil
  then show ?case by simp
next
  case (Cons coin rest)
  from Cons.prems obtain pushed where
    st: "narrativeStep rt coin = Inr pushed" and
    lp: "narrativeLoop rt rest (signals @ pushed) = Inr out"
    by (auto simp: bindE_Inr_iff)
  from Cons.IH [OF lp] obtain ps where
    "list_all2 (\<lambda>c l. narrativeStep rt c = Inr l) rest ps" "out = (signals @ pushed) @ concat ps"
    by blast
  with st show ?case
    by (intro exI [of _ "pushed # ps"]) simp
qed

lemma narrativeSteps_shape:
  "list_all2 (\<lambda>c l. narrativeStep rt c = Inr l) coins ps \<Longrightarrow>
     list_all (isSignal ''narrative'' ''medium'') (concat ps) \<and>
     length (concat ps) = length (filter (narrativeQualifies rt) coins)"
  by (induction coins ps rule: list_all2_induct) (auto dest: narrativeStep_shape)

lemma protocolStep_shape:
  "protocolStep rt protocol = Inr pushed \<Longrightarrow>
     list_all (isSignal ''protocol'' ''medium'') pushed \<and>
     length pushed = (if protocolQualifies rt protocol then 1 else 0)"
  by (auto simp: protocolStep_def protocolQualifies_def isSignal_def bindE_Inr_iff get_def
           split: if_splits)

lemma protocolLoop_shape:
  "protocolLoop rt protocols signals = Inr out \<Longrightarrow>
     \<exists>new. out = signals @ new \<and> list_all (isSignal ''protocol'' ''medium'') new \<and>
           length new = length (filter (protocolQualifies rt) protocols)"
proof (induction protocols arbitrary: signals out)
  case Nil
  then show ?case by simp
next
  case (Cons protocol rest)
  from Cons.prems obtain pushed where
    st: "protocolStep rt protocol = Inr pushed" and
    lp: "protocolLoop rt rest (signals @ pushed) = Inr out"
    by (auto simp: bindE_Inr_iff)
  from Cons.IH [OF lp] obtain new where
    new: "out = (signals @ pushed) @ new" "list_all (isSignal ''protocol'' ''medium'') new"
      "length new = length (filter (protocolQualifies rt) rest)"
    by blast
  from protocolStep_shape [OF st] new show ?case
    by (intro exI [of _ "pushed @ new"]) auto
qed

lemma slice_iterate_length: "bindE (call_slice v n) iterate = Inr xs \<Longrightarrow> length xs \<le> n"
  by (cases v) (auto simp: bindE_Inr_iff)

text \<open>What a returned signal list is made of, rule by rule.\<close>

lemma buildAlphaSignals_parts:
  assumes "buildAlphaSignals rt fearGreed trending topCoins defi dexVolume = Inr signals"
  shows "\<exists>w coins ps protocols p.
     whaleRule rt dexVolume topCoins [] = Inr w \<and>
     bindE (call_slice (js_or (opt_get trending ''coins'') (JArr [])) 3) iterate = Inr coins \<and>
     list_all2 (\<lambda>c l. narrativeStep rt c = Inr l) coins ps \<and>
     bindE (call_slice defi 3) iterate = Inr protocols \<and>
     list_all (isSignal ''protocol'' ''medium'') p \<and>
     length p = length (filter (protocolQualifies rt) protocols) \<and>
     signals = sentimentRule rt fearGreed [] @ w @ concat ps @ p"
proof -
  from assms obtain s2 coins s3 protocols where
    w: "whaleRule rt dexVolume topCoins (sentimentRule rt fearGreed []) = Inr s2" and
    c: "bindE (call_slice (js_or (opt_get trending ''coins'') (JArr [])) 3) iterate = Inr coins" and
    n: "narrativeLoop rt coins s2 = Inr s3" and
    d: "bindE (call_slice defi 3) iterate = Inr protocols" and
    p: "protocolLoop rt protocols s3 = Inr signals"
    unfolding buildAlphaSignals_def Let_def bindE_Inr_iff by auto
  from w obtain ws where ws: "whaleRule rt dexVolume topCoins [] = Inr ws"
    "s2 = sentimentRule rt fearGreed [] @ ws"
    using whaleRule_append by blast
  from narrativeLoop_steps [OF n] obtain ns where ns:
    "list_all2 (\<lambda>c l. narrativeStep rt c = Inr l) coins ns" "s3 = s2 @ concat ns" by blast
  from protocolLoop_shape [OF p] obtain ps where ps: "signals = s3 @ ps"
    "list_all (isSignal ''protocol'' ''medium'') ps"
    "length ps = length (filter (protocolQualifies rt) protocols)" by blast
  from ws ns ps c d show ?thesis by auto
qed

lemma signals_by_type:
  assumes "list_all (hasType ''sentiment'') a" "list_all (isSignal ''whale'' ''medium'') w"
    "list_all (isSignal ''narrative'' ''medium'') n" "list_all (isSignal ''protocol'' ''medium'') p"
  shows "ofType ''sentiment'' (a @ w @ n @ p) = a"
    and "ofType ''whale'' (a @ w @ n @ p) = w"
    and "ofType ''narrative'' (a @ w @ n @ p) = n"
    and "ofType ''protocol'' (a @ w @ n @ p) = p"
proof -
  have a: "ofType ''sentiment'' a = a" "ofType ''whale'' a = []" "ofType ''narrative'' a = []"
    "ofType ''protocol'' a = []"
    using assms(1) by (induction a) (auto simp: ofType_def hasType_def)
  show "ofType ''sentiment'' (a @ w @ n @ p) = a"
    using assms a by (simp add: ofType_append ofType_other)
  show "ofType ''whale'' (a @ w @ n @ p) = w"
    using assms a by (simp add: ofType_append ofType_other ofType_same)
  show "ofType ''narrative'' (a @ w @ n @ p) = n"
    using assms a by (simp add: ofType_append ofType_other ofType_same)
  show "ofType ''protocol'' (a @ w @ n @ p) = p"
    using assms a by (simp add: ofType_append ofType_other ofType_same)
qed

lemma call_toFixed_number: "isNumOrAbsent v \<Longrightarrow> js_gt rt v c \<Longrightarrow> 0 \<le> c \<Longrightarrow> \<exists>s. call_toFixed rt v f = Inr s"
  by (cases v) (auto simp: js_gt_def)

lemma opt_toUpperCase_string: "isStrOrAbsent v \<Longrightarrow> \<exists>u. opt_toUpperCase v = Inr u"
  by (cases v) (auto simp: opt_toUpperCase_def)

lemma narrativeStep_returns:
  assumes "wellFormedCoin coin"
  shows "\<exists>pushed. narrativeStep rt coin = Inr pushed"
proof -
  let ?pc = "opt_get (opt_get (opt_get (opt_get coin ''item'') ''data'')
            ''price_change_percentage_24h'') ''usd''"
  from assms obtain u where u: "opt_toUpperCase (opt_get (opt_get coin ''item'') ''symbol'') = Inr u"
    using opt_toUpperCase_string by (auto simp: wellFormedCoin_def)
  show ?thesis
  proof (cases "js_gt rt ?pc 10")
    case True
    with assms obtain s where "call_toFixed rt ?pc 1 = Inr s"
      using call_toFixed_number [of ?pc rt 10 1] by (auto simp: wellFormedCoin_def)
    with True u assms show ?thesis
      by (simp add: narrativeStep_def get_def wellFormedCoin_def)
  next
    case False
    with assms show ?thesis
      by (simp add: narrativeStep_def get_def wellFormedCoin_def)
  qed
qed

lemma narrativeLoop_returns:
  "list_all wellFormedCoin coins \<Longrightarrow> \<exists>out. narrativeLoop rt coins signals = Inr out"
proof (induction coins arbitrary: signals)
  case Nil
  then show ?case by simp
next
  case (Cons coin rest)
  from Cons.prems have "wellFormedCoin coin" "list_all wellFormedCoin rest"
    by simp_all
  from narrativeStep_returns [OF this(1)] obtain pushed where
    "narrativeStep rt coin = Inr pushed" by blast
  with Cons.IH [OF \<open>list_all wellFormedCoin rest\<close>] show ?case by simp
qed

lemma protocolStep_returns:
  assumes "wellFormedProtocol p"
  shows "\<exists>pushed. protocolStep rt p = Inr pushed"
proof (cases "js_gt rt (opt_get p ''tvlChange7d'') 10")
  case True
  with assms obtain s where "call_toFixed rt (opt_get p ''tvlChange7d'') 1 = Inr s"
    using call_toFixed_number [of "opt_get p ''tvlChange7d''" rt 10 1]
    by (auto simp: wellFormedProtocol_def)
  with True assms show ?thesis
    by (simp add: protocolStep_def get_def wellFormedProtocol_def)
next
  case False
  with assms show ?thesis
    by (simp add: protocolStep_def get_def wellFormedProtocol_def)
qed

lemma protocolLoop_returns:
  "list_all wellFormedProtocol ps \<Longrightarrow> \<exists>out. protocolLoop rt ps signals = Inr out"
proof (induction ps arbitrary: signals)
  case Nil
  then show ?case by simp
next
  case (Cons p rest)
  from Cons.prems have "wellFormedProtocol p" "list_all wellFormedProtocol rest"
    by simp_all
  from protocolStep_returns [OF this(1)] obtain pushed where
    "protocolStep rt p = Inr pushed" by blast
  with Cons.IH [OF \<open>list_all wellFormedProtocol rest\<close>] show ?case by simp
qed

lemma whaleRule_returns:
  assumes "isNumOrAbsent (opt_get dexVolume ''change24h'')"
  shows "\<exists>out. whaleRule rt dexVolume topCoins signals = Inr out"
proof (cases "js_gt rt (opt_get dexVolume ''change24h'') 5")
  case True
  with assms obtain s where s: "call_toFixed rt (opt_get dexVolume ''change24h'') 1 = Inr s"
    using call_toFixed_number [of "opt_get dexVolume ''change24h''" rt 5 1] by auto
  from True have "\<not> nullish dexVolume"
    by (cases dexVolume) (auto simp: js_gt_def)
  with s show ?thesis
    by (simp add: whaleRule_def get_def)
next
  case False
  then show ?thesis by (simp add: whaleRule_def)
qed

text \<open>
  The engine returns on every well-formed input: the DeFi list has to be a list; the other
  four inputs may be \<^verbatim>\<open>null\<close>.
\<close>

lemma buildAlphaSignals_returns:
  assumes "wellFormedInputs trending defi dexVolume"
  shows "\<exists>signals. buildAlphaSignals rt fearGreed trending topCoins defi dexVolume = Inr signals"
proof -
  from assms obtain ps where defi: "defi = JArr ps" and
    ps: "list_all wellFormedProtocol (take 3 ps)"
    by (cases defi) (auto simp: wellFormedInputs_def)
  from assms have dex: "isNumOrAbsent (opt_get dexVolume ''change24h'')" and
    lst: "isListOrAbsent (opt_get trending ''coins'')" and
    cs: "list_all wellFormedCoin (take 3 (elements (opt_get trending ''coins'')))"
    by (simp_all add: wellFormedInputs_def)
  obtain s2 where s2: "whaleRule rt dexVolume topCoins (sentimentRule rt fearGreed []) = Inr s2"
    using whaleRule_returns [OF dex] by blast
  have coins: "bindE (call_slice (js_or (opt_get trending ''coins'') (JArr [])) 3) iterate
      = Inr (take 3 (elements (opt_get trending ''coins'')))"
    using lst by (cases "opt_get trending ''coins''") (simp_all add: js_or_def elements_def)
  obtain s3 where s3: "narrativeLoop rt (take 3 (elements (opt_get trending ''coins''))) s2 = Inr s3"
    using narrativeLoop_returns [OF cs] by blast
  obtain s4 where s4: "protocolLoop rt (take 3 ps) s3 = Inr s4"
    using protocolLoop_returns [OF ps] by blast
  show ?thesis
    using s2 coins s3 s4 defi
    by (simp add: buildAlphaSignals_def)
qed

lemma nullish_not_gt: "nullish v \<Longrightarrow> 0 \<le> c \<Longrightarrow> \<not> js_gt rt v c"
  by (cases v) (simp_all add: js_gt_def)

lemma nullish_not_lt: "nullish v \<Longrightarrow> c \<le> 0 \<Longrightarrow> \<not> js_lt rt v c"
  by (cases v) (simp_all add: js_lt_def)

section \<open>Reading the sentiment score\<close>

text \<open>
  \<^verbatim>\<open>parseInt\<close> reads back the decimal digits of a number, so the score the Signal Engine
  compares is the number that the payload's value spells. The equation of \<open>showNat\<close> is
  applied by hand from here on.
\<close>

declare showNat.simps [simp del]

lemma isDec_iff: "isDec c = (\<exists>d<10. c = digit_char d)"
proof -
  have "length ''0123456789'' = 10"
    by simp
  then show ?thesis
    unfolding isDec_def digit_char_def in_set_conv_nth by metis
qed

lemma digit_char_cases:
  assumes "d < 10"
  shows "d = 0 \<or> d = 1 \<or> d = 2 \<or> d = 3 \<or> d = 4 \<or> d = 5 \<or> d = 6 \<or> d = 7 \<or> d = 8
    \<or> d = (9 :: nat)"
  using assms by arith

lemma digit_char_props:
  assumes "d < 10"
  shows "digitVal (digit_char d) = Some d" and "\<not> isWhite (digit_char d)"
    and "digit_char d \<noteq> CHR ''-''" and "digit_char d \<noteq> CHR ''+''"
    and "digit_char d \<noteq> CHR ''x''" and "digit_char d \<noteq> CHR ''X''"
  using digit_char_cases [OF assms]
  by (auto simp: digit_char_def digitVal_def isWhite_def)

lemma showNat_step:
  "10 \<le> n \<Longrightarrow> showNat n = showNat (n div 10) @ [digit_char (n mod 10)]"
  by (subst showNat.simps) simp

lemma showNat_small: "n < 10 \<Longrightarrow> showNat n = [digit_char n]"
  by (subst showNat.simps) simp

lemma showNat_digits: "list_all isDec (showNat n)"
proof (induction n rule: showNat.induct)
  case (1 n)
  show ?case
  proof (cases "n < 10")
    case True
    then show ?thesis by (auto simp: showNat_small isDec_iff)
  next
    case False
    then have "list_all isDec (showNat (n div 10))" using "1.IH" by simp
    moreover have "isDec (digit_char (n mod 10))"
      unfolding isDec_iff by (rule exI [of _ "n mod 10"]) simp
    ultimately show ?thesis using False by (simp add: showNat_step)
  qed
qed

lemma showNat_nonempty: "showNat n \<noteq> []"
  by (subst showNat.simps) simp

lemma digitsVal_snoc:
  "digitsVal R (Z @ [c]) = digitsVal R Z * R + (case digitVal c of None \<Rightarrow> 0 | Some d \<Rightarrow> d)"
  by (simp add: digitsVal_def)

lemma digitsVal_showNat: "digitsVal 10 (showNat n) = n"
proof (induction n rule: showNat.induct)
  case (1 n)
  show ?case
  proof (cases "n < 10")
    case True
    then show ?thesis by (simp add: showNat_small digitsVal_def digit_char_props)
  next
    case False
    then have "digitsVal 10 (showNat (n div 10)) = n div 10" using "1.IH" by simp
    then show ?thesis using False
      by (simp add: showNat_step digitsVal_snoc digit_char_props)
  qed
qed

lemma isDec_props:
  assumes "isDec c"
  shows "isDigit 10 c" and "\<not> isWhite c" and "c \<noteq> CHR ''-''" and "c \<noteq> CHR ''+''"
    and "c \<noteq> CHR ''x''" and "c \<noteq> CHR ''X''"
  using assms by (auto simp: isDec_iff isDigit_def digit_char_props)

lemma parseIntStr_decimal:
  assumes "list_all isDec S" "S \<noteq> []"
  shows "parseIntStr S = Some (int (digitsVal 10 S))"
proof -
  from assms obtain c S' where S: "S = c # S'" by (cases S) auto
  with assms have c: "isDec c" and S': "list_all isDec S'" by simp_all
  have white: "dropWhile isWhite S = S"
    using isDec_props(2) [OF c] by (simp add: S)
  have sign: "take 1 S \<noteq> ''-''" "take 1 S \<noteq> ''+''"
    using isDec_props(3,4) [OF c] by (simp_all add: S)
  have hex: "take 2 S \<noteq> ''0x''" "take 2 S \<noteq> ''0X''"
  proof -
    show "take 2 S \<noteq> ''0x''"
    proof (cases S')
      case Nil
      then show ?thesis by (simp add: S)
    next
      case (Cons c' S'')
      with S' have "isDec c'" by simp
      from isDec_props(5) [OF this] show ?thesis by (simp add: S Cons)
    qed
    show "take 2 S \<noteq> ''0X''"
    proof (cases S')
      case Nil
      then show ?thesis by (simp add: S)
    next
      case (Cons c' S'')
      with S' have "isDec c'" by simp
      from isDec_props(6) [OF this] show ?thesis by (simp add: S Cons)
    qed
  qed
  have run: "takeWhile (isDigit 10) S = S"
    using assms(1) by (auto simp: list_all_iff isDec_props(1))
  show ?thesis
    unfolding parseIntStr_def Let_def white
    using sign hex assms(2)
    by (simp add: run del: takeWhile_eq_all_conv)
qed

lemma parseIntStr_showNat: "parseIntStr (showNat n) = Some (int n)"
  using parseIntStr_decimal [OF showNat_digits showNat_nonempty, of n]
  by (simp add: digitsVal_showNat)

lemma fgValue_of_string:
  "rawValue fearGreed = JStr (showNat n) \<Longrightarrow> fgValue rt fearGreed = Some (int n)"
  by (simp add: rawValue_def fgValue_def js_or_def showNat_nonempty parseInt_def
      parseIntStr_showNat)

lemma fgValue_of_number:
  assumes "rawValue fearGreed = JNum (real n)" "0 < n" "n < 10 ^ 21"
  shows "fgValue rt fearGreed = Some (int n)"
proof -
  have "real n < real (10 ^ 21)"
    using assms(3) by (simp only: of_nat_less_iff)
  then have small: "\<bar>real n\<bar> < 10 ^ 21"
    by simp
  have whole: "\<lfloor>real n\<rfloor> = int n"
    by simp
  have "numToString rt (real n) = showInt (int n)"
    unfolding numToString_def whole using small by simp
  then have "toStringJ rt (JNum (real n)) = showNat n"
    by (simp add: showInt_def)
  moreover have "js_or (JNum (real n)) (JStr ''50'') = JNum (real n)"
    using assms(2) by (simp add: js_or_def)
  ultimately show ?thesis
    using assms(1)
    by (simp add: rawValue_def fgValue_def parseInt_def parseIntStr_showNat
        del: toStringJ.simps)
qed

lemma parseInt_50: "parseInt rt (JStr ''50'') = Some 50"
  by (simp add: parseInt_def parseIntStr_def isWhite_def isDigit_def digitVal_def digitsVal_def)

lemma nullish_not_truthy: "nullish v \<Longrightarrow> \<not> truthy v"
  by (cases v) simp_all

lemma absent_default: "nullish v \<Longrightarrow> js_or v d = d"
  by (cases v) (simp_all add: js_or_def)

text \<open>
  C3. The engine returns on every well-formed input. Whenever it returns and the sentiment
  score it read is the integer \<open>s\<close>: for \<open>s \<le> 25\<close> the list holds exactly one
  \<open>sentiment\<close> signal, its title ends in "Buy Zone" and its confidence is \<open>high\<close> if
  \<open>s \<le> 15\<close> and \<open>medium\<close> otherwise; for \<open>s \<ge> 75\<close> exactly one, titled
  "Caution Zone", \<open>high\<close> if \<open>s \<ge> 85\<close> and \<open>medium\<close> otherwise; for \<open>25 < s < 75\<close>
  none. The score it reads is the one the payload holds: \<open>k\<close> when the first reading's
  value is the decimal string of \<open>k\<close>, as the sentiment source sends it, or the number
  \<open>k\<close> with \<open>0 < k < 10\<^sup>2\<^sup>1\<close> (the number 0 is falsy, and read as a missing value
  is; from \<open>10\<^sup>2\<^sup>1\<close> on a number prints with an exponent), and 50 when the value is
  missing or \<^verbatim>\<open>null\<close>.
\<close>

theorem sentiment_rule_thresholds:
  "(wellFormedInputs trending defi dexVolume
      \<longrightarrow> (\<exists>signals. buildAlphaSignals rt fearGreed trending topCoins defi dexVolume
             = Inr signals))
   \<and> (buildAlphaSignals rt fearGreed trending topCoins defi dexVolume = Inr signals
        \<and> fgValue rt fearGreed = Some s
      \<longrightarrow> (s \<le> 25 \<longrightarrow> (\<exists>sg t. ofType ''sentiment'' signals = [sg]
               \<and> opt_get sg ''title'' = JStr (t @ ''Buy Zone'')
               \<and> opt_get sg ''confidence'' = JStr (if s \<le> 15 then ''high'' else ''medium'')))
          \<and> (75 \<le> s \<longrightarrow> (\<exists>sg t. ofType ''sentiment'' signals = [sg]
               \<and> opt_get sg ''title'' = JStr (t @ ''Caution Zone'')
               \<and> opt_get sg ''confidence'' = JStr (if 85 \<le> s then ''high'' else ''medium'')))
          \<and> (25 < s \<and> s < 75 \<longrightarrow> ofType ''sentiment'' signals = []))
   \<and> ((rawValue fearGreed = JStr (showNat k) \<longrightarrow> fgValue rt fearGreed = Some (int k))
      \<and> (rawValue fearGreed = JNum (real k) \<and> 0 < k \<and> k < 10 ^ 21
           \<longrightarrow> fgValue rt fearGreed = Some (int k))
      \<and> (nullish (rawValue fearGreed) \<longrightarrow> fgValue rt fearGreed = Some 50))"
  (is "?total \<and> (?ret \<longrightarrow> ?props) \<and> ?reads")
proof -
  have total: ?total
    by (simp add: buildAlphaSignals_returns)
  have reads: ?reads
    using fgValue_of_string [of fearGreed k rt] fgValue_of_number [of fearGreed k rt]
    by (simp add: rawValue_def fgValue_def absent_default parseInt_50)
  have rule: "?ret \<longrightarrow> ?props"
  proof (rule impI)
    assume "?ret"
    then have ret: "buildAlphaSignals rt fearGreed trending topCoins defi dexVolume = Inr signals"
      and hyp2: "fgValue rt fearGreed = Some s"
      by simp_all
    show ?props
    proof -
      from buildAlphaSignals_parts [OF ret] obtain w coins ps and protocols :: "jsval list"
        and p where
        w: "whaleRule rt dexVolume topCoins [] = Inr w" and
        n: "list_all2 (\<lambda>c l. narrativeStep rt c = Inr l) coins ps" and
        p: "list_all (isSignal ''protocol'' ''medium'') p" and
        sg: "signals = sentimentRule rt fearGreed [] @ w @ concat ps @ p"
        by blast
      have "ofType ''sentiment'' signals = sentimentRule rt fearGreed []"
        unfolding sg using sentimentRule_shape whaleRule_shape [OF w] narrativeSteps_shape [OF n] p
        by (intro signals_by_type(1)) auto
      then show ?props
        using sentimentRule_cases [of rt fearGreed] hyp2
        by (auto simp: num_le_def num_ge_def)
    qed
  qed
  show ?thesis
    by (rule conjI [OF total conjI [OF rule reads]])
qed

theorem sentiment_rule_thresholds_witness:
  "wellFormedInputs JNull (JArr []) JNull
   \<and> rawValue (fearGreedOf ''20'' ''Extreme Fear'') = JStr (showNat 20)
   \<and> fgValue exampleRuntime (fearGreedOf ''20'' ''Extreme Fear'') = Some 20
   \<and> (\<exists>sg t. ofType ''sentiment''
         [JObj [(''type'', JStr ''sentiment''),
            (''title'', JStr ''Extreme Fear (20) - Potential Buy Zone''),
            (''details'',
               JStr ''Extreme fear often precedes market reversals. Consider accumulation.''),
            (''confidence'', JStr ''medium''), (''actionable'', JBool True)]] = [sg]
       \<and> opt_get sg ''title'' = JStr (t @ ''Buy Zone'')
       \<and> opt_get sg ''confidence'' = JStr ''medium'')
   \<and> rawValue (JObj [(''data'', JArr [JObj [(''value'', JNum 80)]])]) = JNum (real 80)
   \<and> fgValue exampleRuntime (JObj [(''data'', JArr [JObj [(''value'', JNum 80)]])]) = Some 80
   \<and> (\<exists>sg t. ofType ''sentiment''
         [JObj [(''type'', JStr ''sentiment''),
            (''title'', JStr ''Neutral (80) - Caution Zone''),
            (''details'',
               JStr ''Extreme greed often precedes corrections. Consider taking profits.''),
            (''confidence'', JStr ''medium''), (''actionable'', JBool True)]] = [sg]
       \<and> opt_get sg ''title'' = JStr (t @ ''Caution Zone'')
       \<and> opt_get sg ''confidence'' = JStr ''medium'')
   \<and> nullish (rawValue JNull)
   \<and> fgValue exampleRuntime JNull = Some 50
   \<and> ofType ''sentiment'' ([] :: jsval list) = []"
proof -
  let ?out = "[JObj [(''type'', JStr ''sentiment''),
            (''title'', JStr ''Extreme Fear (20) - Potential Buy Zone''),
            (''details'',
               JStr ''Extreme fear often precedes market reversals. Consider accumulation.''),
            (''confidence'', JStr ''medium''), (''actionable'', JBool True)]]"
  let ?greedy = "JObj [(''data'', JArr [JObj [(''value'', JNum 80)]])]"
  let ?caution = "[JObj [(''type'', JStr ''sentiment''),
            (''title'', JStr ''Neutral (80) - Caution Zone''),
            (''details'',
               JStr ''Extreme greed often precedes corrections. Consider taking profits.''),
            (''confidence'', JStr ''medium''), (''actionable'', JBool True)]]"
  have wf: "wellFormedInputs JNull (JArr []) JNull"
    by (simp add: wellFormedInputs_def elements_def)
  have run: "buildAlphaSignals exampleRuntime (fearGreedOf ''20'' ''Extreme Fear'') JNull JNull
      (JArr []) JNull
    = Inr ?out"
    by code_simp
  have raw: "rawValue (fearGreedOf ''20'' ''Extreme Fear'') = JStr (showNat 20)"
    by code_simp
  note fear = sentiment_rule_thresholds [where rt = exampleRuntime
      and fearGreed = "fearGreedOf ''20'' ''Extreme Fear''" and trending = JNull
      and topCoins = JNull and defi = "JArr []" and dexVolume = JNull and s = 20
      and signals = "?out" and k = 20]
  from fear raw have score: "fgValue exampleRuntime (fearGreedOf ''20'' ''Extreme Fear'') = Some 20"
    by simp
  from fear run score wf
  have buy: "\<exists>sg t. ofType ''sentiment'' ?out = [sg]
      \<and> opt_get sg ''title'' = JStr (t @ ''Buy Zone'')
      \<and> opt_get sg ''confidence'' = JStr ''medium''"
    by simp
  have run80: "buildAlphaSignals exampleRuntime ?greedy JNull JNull (JArr []) JNull = Inr ?caution"
    by code_simp
  have raw80: "rawValue ?greedy = JNum (real 80)"
    by code_simp
  note greed = sentiment_rule_thresholds [where rt = exampleRuntime
      and fearGreed = "?greedy" and trending = JNull
      and topCoins = JNull and defi = "JArr []" and dexVolume = JNull and s = 80
      and signals = "?caution" and k = 80]
  from greed raw80 have score80: "fgValue exampleRuntime ?greedy = Some 80"
    by simp
  from greed run80 score80 wf
  have sell: "\<exists>sg t. ofType ''sentiment'' ?caution = [sg]
      \<and> opt_get sg ''title'' = JStr (t @ ''Caution Zone'')
      \<and> opt_get sg ''confidence'' = JStr ''medium''"
    by simp
  have run50: "buildAlphaSignals exampleRuntime JNull JNull JNull (JArr []) JNull = Inr []"
    by code_simp
  have raw50: "nullish (rawValue JNull)"
    by code_simp
  note absent = sentiment_rule_thresholds [where rt = exampleRuntime
      and fearGreed = JNull and trending = JNull
      and topCoins = JNull and defi = "JArr []" and dexVolume = JNull and s = 50
      and signals = "[]" and k = 0]
  from absent raw50 have score50: "fgValue exampleRuntime JNull = Some 50"
    by simp
  from absent run50 score50 wf
  have none: "ofType ''sentiment'' ([] :: jsval list) = []"
    by simp
  from wf raw score buy raw80 score80 sell raw50 score50 none
  show ?thesis
    by (intro conjI)
qed

text \<open>
  C4. The engine returns on every well-formed input. Whenever it returns, the list holds one \<open>whale\<close> signal if the DEX 24h volume
  change is above 5 and the 24h price change of the asset at index 0 is below \<open>-2\<close>, and none
  otherwise; the signal's confidence is \<open>medium\<close>. On numbers the two comparisons are the
  strict orders of the numbers; a missing field on either side leaves no whale signal.
\<close>

theorem whale_rule_iff:
  "(wellFormedInputs trending defi dexVolume
      \<longrightarrow> (\<exists>signals. buildAlphaSignals rt fearGreed trending topCoins defi dexVolume
             = Inr signals))
   \<and> (buildAlphaSignals rt fearGreed trending topCoins defi dexVolume = Inr signals
      \<longrightarrow> length (ofType ''whale'' signals)
              = (if js_gt rt (opt_get dexVolume ''change24h'') 5
                    \<and> js_lt rt (opt_get (opt_idx topCoins 0) ''price_change_percentage_24h'') (- 2)
                 then 1 else 0)
          \<and> list_all (isSignal ''whale'' ''medium'') (ofType ''whale'' signals)
          \<and> (\<forall>a b. opt_get dexVolume ''change24h'' = JNum a
                \<and> opt_get (opt_idx topCoins 0) ''price_change_percentage_24h'' = JNum b
                \<longrightarrow> (length (ofType ''whale'' signals) = 1) = (5 < a \<and> b < - 2))
          \<and> (nullish (opt_get dexVolume ''change24h'')
                \<or> nullish (opt_get (opt_idx topCoins 0) ''price_change_percentage_24h'')
              \<longrightarrow> ofType ''whale'' signals = []))"
  (is "?total \<and> (?ret \<longrightarrow> ?props)")
proof (rule conjI)
  show ?total
    by (simp add: buildAlphaSignals_returns)
  show "?ret \<longrightarrow> ?props"
  proof (rule impI)
    assume ret: "?ret"
    show ?props
    proof -
      from buildAlphaSignals_parts [OF ret] obtain w coins ps and protocols :: "jsval list"
        and p where
        w: "whaleRule rt dexVolume topCoins [] = Inr w" and
        n: "list_all2 (\<lambda>c l. narrativeStep rt c = Inr l) coins ps" and
        p: "list_all (isSignal ''protocol'' ''medium'') p" and
        sg: "signals = sentimentRule rt fearGreed [] @ w @ concat ps @ p"
        by blast
      have eq: "ofType ''whale'' signals = w"
        unfolding sg using sentimentRule_shape whaleRule_shape [OF w] narrativeSteps_shape [OF n] p
        by (intro signals_by_type(2)) auto
      have absent: "nullish (opt_get dexVolume ''change24h'')
          \<or> nullish (opt_get (opt_idx topCoins 0) ''price_change_percentage_24h'')
        \<longrightarrow> w = []"
        using whaleRule_shape [OF w]
          nullish_not_gt [of "opt_get dexVolume ''change24h''" 5 rt]
          nullish_not_lt [of "opt_get (opt_idx topCoins 0) ''price_change_percentage_24h''"
            "- 2" rt]
        by auto
      show ?props
        unfolding eq using whaleRule_shape [OF w] absent
        by (auto simp: js_gt_def js_lt_def)
    qed
  qed
qed

theorem whale_rule_iff_witness:
  "wellFormedInputs JNull (JArr []) (dexVolumeOf 6)
   \<and> length (ofType ''whale''
      [JObj [(''type'', JStr ''whale''),
         (''title'', JStr ''Volume/Price Divergence - Smart Money Repositioning''),
         (''details'', JStr ''DEX volume up 6.0% while prices down. Potential accumulation.''),
         (''confidence'', JStr ''medium''), (''actionable'', JBool True)]]) = 1
   \<and> js_gt exampleRuntime (opt_get (dexVolumeOf 6) ''change24h'') 5
   \<and> js_lt exampleRuntime (opt_get (opt_idx (marketsOf (- 3)) 0) ''price_change_percentage_24h'')
        (- 2)"
proof -
  let ?out = "[JObj [(''type'', JStr ''whale''),
         (''title'', JStr ''Volume/Price Divergence - Smart Money Repositioning''),
         (''details'', JStr ''DEX volume up 6.0% while prices down. Potential accumulation.''),
         (''confidence'', JStr ''medium''), (''actionable'', JBool True)]]"
  have wf: "wellFormedInputs JNull (JArr []) (dexVolumeOf 6)"
    by (simp add: wellFormedInputs_def elements_def dexVolumeOf_def)
  have run: "buildAlphaSignals exampleRuntime JNull JNull (marketsOf (- 3)) (JArr [])
      (dexVolumeOf 6)
    = Inr ?out"
    by code_simp
  have c: "js_gt exampleRuntime (opt_get (dexVolumeOf 6) ''change24h'') 5
     \<and> js_lt exampleRuntime (opt_get (opt_idx (marketsOf (- 3)) 0) ''price_change_percentage_24h'')
        (- 2)"
    by (simp add: dexVolumeOf_def marketsOf_def js_gt_def js_lt_def)
  from whale_rule_iff [where rt = exampleRuntime and fearGreed = JNull and trending = JNull
      and topCoins = "marketsOf (- 3)" and defi = "JArr []" and dexVolume = "dexVolumeOf 6"
      and signals = "?out"]
    run c wf
  show ?thesis
    by simp
qed

text \<open>
  C5. The engine returns on every well-formed input. Whenever it returns on a trending list
  \<open>cs\<close>, the \<open>narrative\<close> signals are
  what the loop body pushed for the first three elements of \<open>cs\<close>, in their order: one
  signal for an element whose 24h price change is above 10, nothing for one that does not
  qualify. Each has confidence \<open>medium\<close>, and their number is the number of qualifying
  elements among the first three, so an element at index 3 or beyond changes nothing.
\<close>

theorem narrative_rule_first_three:
  "(wellFormedInputs trending defi dexVolume
      \<longrightarrow> (\<exists>signals. buildAlphaSignals rt fearGreed trending topCoins defi dexVolume
             = Inr signals))
   \<and> (buildAlphaSignals rt fearGreed trending topCoins defi dexVolume = Inr signals
        \<and> opt_get trending ''coins'' = JArr cs
      \<longrightarrow> (\<exists>ps. list_all2 (\<lambda>c l. narrativeStep rt c = Inr l
                       \<and> length l = (if narrativeQualifies rt c then 1 else 0)) (take 3 cs) ps
                \<and> ofType ''narrative'' signals = concat ps)
          \<and> list_all (isSignal ''narrative'' ''medium'') (ofType ''narrative'' signals)
          \<and> length (ofType ''narrative'' signals)
              = length (filter (narrativeQualifies rt) (take 3 cs))
          \<and> (\<forall>c x. opt_get (opt_get (opt_get (opt_get c ''item'') ''data'')
                      ''price_change_percentage_24h'') ''usd'' = JNum x
                \<longrightarrow> narrativeQualifies rt c = (10 < x)))"
  (is "?total \<and> (?ret \<longrightarrow> ?props)")
proof (rule conjI)
  show ?total
    by (simp add: buildAlphaSignals_returns)
  show "?ret \<longrightarrow> ?props"
  proof (rule impI)
    assume "?ret"
    then have ret: "buildAlphaSignals rt fearGreed trending topCoins defi dexVolume = Inr signals"
      and hyp2: "opt_get trending ''coins'' = JArr cs"
      by simp_all
    show ?props
    proof -
      from buildAlphaSignals_parts [OF ret] obtain w coins ps and protocols :: "jsval list"
        and p where
        w: "whaleRule rt dexVolume topCoins [] = Inr w" and
        c: "bindE (call_slice (js_or (opt_get trending ''coins'') (JArr [])) 3) iterate = Inr coins" and
        n: "list_all2 (\<lambda>c l. narrativeStep rt c = Inr l) coins ps" and
        p: "list_all (isSignal ''protocol'' ''medium'') p" and
        sg: "signals = sentimentRule rt fearGreed [] @ w @ concat ps @ p"
        by blast
      from c hyp2 have coins: "coins = take 3 cs"
        by (simp add: js_or_def)
      have eq: "ofType ''narrative'' signals = concat ps"
        unfolding sg using sentimentRule_shape whaleRule_shape [OF w] narrativeSteps_shape [OF n] p
        by (intro signals_by_type(3)) auto
      have steps: "list_all2 (\<lambda>c l. narrativeStep rt c = Inr l
                        \<and> length l = (if narrativeQualifies rt c then 1 else 0)) (take 3 cs) ps"
        using n unfolding coins
        by (rule list_all2_mono) (simp add: narrativeStep_shape)
      show ?props
        using steps eq narrativeSteps_shape [OF n] coins
        by (auto simp: narrativeQualifies_def js_gt_def)
    qed
  qed
qed

theorem narrative_rule_first_three_witness:
  "wellFormedInputs fiveTrending (JArr []) JNull
   \<and> map (\<lambda>s. opt_get s ''asset'') (ofType ''narrative''
      [JObj [(''type'', JStr ''narrative''), (''asset'', JStr ''AA''),
         (''title'', JStr ''Aa trending +12.0%''),
         (''details'', JStr ''Rank #7, strong momentum against market''),
         (''confidence'', JStr ''medium''), (''actionable'', JBool True)],
       JObj [(''type'', JStr ''narrative''), (''asset'', JStr ''CC''),
         (''title'', JStr ''Cc trending +15.0%''),
         (''details'', JStr ''Rank #7, strong momentum against market''),
         (''confidence'', JStr ''medium''), (''actionable'', JBool True)]])
     = [JStr ''AA'', JStr ''CC'']
   \<and> length (filter (narrativeQualifies exampleRuntime)
        (take 3 [trendingCoin ''aa'' ''Aa'' 12, trendingCoin ''bb'' ''Bb'' 8,
           trendingCoin ''cc'' ''Cc'' 15, trendingCoin ''dd'' ''Dd'' 20,
           trendingCoin ''ee'' ''Ee'' 5])) = 2"
proof -
  let ?out = "[JObj [(''type'', JStr ''narrative''), (''asset'', JStr ''AA''),
         (''title'', JStr ''Aa trending +12.0%''),
         (''details'', JStr ''Rank #7, strong momentum against market''),
         (''confidence'', JStr ''medium''), (''actionable'', JBool True)],
       JObj [(''type'', JStr ''narrative''), (''asset'', JStr ''CC''),
         (''title'', JStr ''Cc trending +15.0%''),
         (''details'', JStr ''Rank #7, strong momentum against market''),
         (''confidence'', JStr ''medium''), (''actionable'', JBool True)]]"
  have wf: "wellFormedInputs fiveTrending (JArr []) JNull"
    by code_simp
  have run: "buildAlphaSignals exampleRuntime JNull fiveTrending JNull (JArr []) JNull
    = Inr ?out"
    by code_simp
  have cs: "opt_get fiveTrending ''coins''
    = JArr [trendingCoin ''aa'' ''Aa'' 12, trendingCoin ''bb'' ''Bb'' 8,
        trendingCoin ''cc'' ''Cc'' 15, trendingCoin ''dd'' ''Dd'' 20, trendingCoin ''ee'' ''Ee'' 5]"
    by (simp add: fiveTrending_def)
  from narrative_rule_first_three [where rt = exampleRuntime and fearGreed = JNull
      and trending = fiveTrending and topCoins = JNull and defi = "JArr []"
      and dexVolume = JNull and signals = "?out"
      and cs = "[trendingCoin ''aa'' ''Aa'' 12, trendingCoin ''bb'' ''Bb'' 8,
        trendingCoin ''cc'' ''Cc'' 15, trendingCoin ''dd'' ''Dd'' 20, trendingCoin ''ee'' ''Ee'' 5]"]
    run cs wf
  show ?thesis
    by (simp add: ofType_def)
qed

text \<open>
  C6. The engine returns on every well-formed input. Whenever it returns, the list is at most one \<open>sentiment\<close> signal, then at
  most one \<open>whale\<close> signal, then at most three \<open>narrative\<close> signals, then at most three
  \<open>protocol\<close> signals, in this order.
\<close>

theorem signals_order_and_caps:
  "(wellFormedInputs trending defi dexVolume
      \<longrightarrow> (\<exists>signals. buildAlphaSignals rt fearGreed trending topCoins defi dexVolume
             = Inr signals))
   \<and> (buildAlphaSignals rt fearGreed trending topCoins defi dexVolume = Inr signals
      \<longrightarrow> (\<exists>a b c d. signals = a @ b @ c @ d
          \<and> length a \<le> 1 \<and> list_all (hasType ''sentiment'') a
          \<and> length b \<le> 1 \<and> list_all (hasType ''whale'') b
          \<and> length c \<le> 3 \<and> list_all (hasType ''narrative'') c
          \<and> length d \<le> 3 \<and> list_all (hasType ''protocol'') d))"
  (is "?total \<and> (?ret \<longrightarrow> ?props)")
proof (rule conjI)
  show ?total
    by (simp add: buildAlphaSignals_returns)
  show "?ret \<longrightarrow> ?props"
  proof (rule impI)
    assume ret: "?ret"
    show ?props
    proof -
      from buildAlphaSignals_parts [OF ret] obtain w coins ps protocols p where
        w: "whaleRule rt dexVolume topCoins [] = Inr w" and
        c: "bindE (call_slice (js_or (opt_get trending ''coins'') (JArr [])) 3) iterate = Inr coins" and
        n: "list_all2 (\<lambda>c l. narrativeStep rt c = Inr l) coins ps" and
        d: "bindE (call_slice defi 3) iterate = Inr protocols" and
        p: "list_all (isSignal ''protocol'' ''medium'') p"
           "length p = length (filter (protocolQualifies rt) protocols)" and
        sg: "signals = sentimentRule rt fearGreed [] @ w @ concat ps @ p"
        by blast
      have lw: "length w \<le> 1" using whaleRule_shape [OF w] by (simp split: if_splits)
      have "length (concat ps) \<le> length coins"
        using narrativeSteps_shape [OF n] by simp
      then have ln: "length (concat ps) \<le> 3"
        using slice_iterate_length [OF c] by simp
      have "length p \<le> length protocols" using p(2) by simp
      then have lp: "length p \<le> 3"
        using slice_iterate_length [OF d] by simp
      show ?props
        using sg sentimentRule_shape [of rt fearGreed] lw ln lp
          isSignal_hasType [of "''whale''" "''medium''" w] whaleRule_shape [OF w]
          isSignal_hasType [of "''narrative''" "''medium''" "concat ps"] narrativeSteps_shape [OF n]
          isSignal_hasType [OF p(1)]
        by blast
    qed
  qed
qed

theorem signals_order_and_caps_witness:
  "wellFormedInputs fiveTrending oneProtocol (dexVolumeOf 6)
   \<and> (\<exists>a b c d.
     [JObj [(''type'', JStr ''sentiment''),
        (''title'', JStr ''Extreme Greed (90) - Caution Zone''),
        (''details'',
           JStr ''Extreme greed often precedes corrections. Consider taking profits.''),
        (''confidence'', JStr ''high''), (''actionable'', JBool True)],
      JObj [(''type'', JStr ''whale''),
        (''title'', JStr ''Volume/Price Divergence - Smart Money Repositioning''),
        (''details'', JStr ''DEX volume up 6.0% while prices down. Potential accumulation.''),
        (''confidence'', JStr ''medium''), (''actionable'', JBool True)],
      JObj [(''type'', JStr ''narrative''), (''asset'', JStr ''AA''),
        (''title'', JStr ''Aa trending +12.0%''),
        (''details'', JStr ''Rank #7, strong momentum against market''),
        (''confidence'', JStr ''medium''), (''actionable'', JBool True)],
      JObj [(''type'', JStr ''narrative''), (''asset'', JStr ''CC''),
        (''title'', JStr ''Cc trending +15.0%''),
        (''details'', JStr ''Rank #7, strong momentum against market''),
        (''confidence'', JStr ''medium''), (''actionable'', JBool True)],
      JObj [(''type'', JStr ''protocol''), (''asset'', JStr ''Lido''),
        (''title'', JStr ''Lido TVL up 12.0% weekly''),
        (''details'', JStr ''Category: Liquid Staking, TVL: $25.00B''),
        (''confidence'', JStr ''medium''), (''actionable'', JBool True)]] = a @ b @ c @ d
     \<and> length a \<le> 1 \<and> list_all (hasType ''sentiment'') a
     \<and> length b \<le> 1 \<and> list_all (hasType ''whale'') b
     \<and> length c \<le> 3 \<and> list_all (hasType ''narrative'') c
     \<and> length d \<le> 3 \<and> list_all (hasType ''protocol'') d)"
proof -
  let ?out = "[JObj [(''type'', JStr ''sentiment''),
        (''title'', JStr ''Extreme Greed (90) - Caution Zone''),
        (''details'',
           JStr ''Extreme greed often precedes corrections. Consider taking profits.''),
        (''confidence'', JStr ''high''), (''actionable'', JBool True)],
      JObj [(''type'', JStr ''whale''),
        (''title'', JStr ''Volume/Price Divergence - Smart Money Repositioning''),
        (''details'', JStr ''DEX volume up 6.0% while prices down. Potential accumulation.''),
        (''confidence'', JStr ''medium''), (''actionable'', JBool True)],
      JObj [(''type'', JStr ''narrative''), (''asset'', JStr ''AA''),
        (''title'', JStr ''Aa trending +12.0%''),
        (''details'', JStr ''Rank #7, strong momentum against market''),
        (''confidence'', JStr ''medium''), (''actionable'', JBool True)],
      JObj [(''type'', JStr ''narrative''), (''asset'', JStr ''CC''),
        (''title'', JStr ''Cc trending +15.0%''),
        (''details'', JStr ''Rank #7, strong momentum against market''),
        (''confidence'', JStr ''medium''), (''actionable'', JBool True)],
      JObj [(''type'', JStr ''protocol''), (''asset'', JStr ''Lido''),
        (''title'', JStr ''Lido TVL up 12.0% weekly''),
        (''details'', JStr ''Category: Liquid Staking, TVL: $25.00B''),
        (''confidence'', JStr ''medium''), (''actionable'', JBool True)]]"
  have wf: "wellFormedInputs fiveTrending oneProtocol (dexVolumeOf 6)"
    by code_simp
  have run: "buildAlphaSignals exampleRuntime (fearGreedOf ''90'' ''Extreme Greed'') fiveTrending
      (marketsOf (- 3)) oneProtocol (dexVolumeOf 6)
    = Inr ?out"
    by code_simp
  from signals_order_and_caps [where rt = exampleRuntime
      and fearGreed = "fearGreedOf ''90'' ''Extreme Greed''" and trending = fiveTrending
      and topCoins = "marketsOf (- 3)" and defi = oneProtocol and dexVolume = "dexVolumeOf 6"
      and signals = "?out"]
    run wf
  show ?thesis
    by blast
qed

section \<open>Properties of the DeFi list\<close>

lemma filterE_kept:
  "filterE f xs = Inr kept \<Longrightarrow> \<forall>p\<in>set kept. p \<in> set xs \<and> f p = Inr True"
proof (induction xs arbitrary: kept)
  case Nil
  then show ?case by simp
next
  case (Cons x xs)
  from Cons.prems obtain keep ys where
    k: "f x = Inr keep" and ys: "filterE f xs = Inr ys" and
    kept: "kept = (if keep then x # ys else ys)"
    by (auto simp: bindE_Inr_iff)
  from Cons.IH [OF ys] k kept show ?case by auto
qed

lemma mapE_list_all2: "mapE f xs = Inr ys \<Longrightarrow> list_all2 (\<lambda>x y. f x = Inr y) xs ys"
proof (induction xs arbitrary: ys)
  case Nil
  then show ?case by simp
next
  case (Cons x xs)
  from Cons.prems obtain y zs where "f x = Inr y" "mapE f xs = Inr zs" "ys = y # zs"
    by (auto simp: bindE_Inr_iff)
  with Cons.IH show ?case by simp
qed

lemma js_gt_0_truthy: "js_gt rt v 0 \<Longrightarrow> truthy v"
  by (cases v) (auto simp: js_gt_def strToNum_def split: if_splits)

lemma positiveTvl_toNumber:
  "positiveTvl rt p \<Longrightarrow> toNumber rt (opt_get p ''tvl'') = Some (tvlOf rt p) \<and> 0 < tvlOf rt p"
  by (auto simp: positiveTvl_def tvlOf_def js_gt_def split: option.splits)

lemma byTvlDesc_positive:
  assumes "positiveTvl rt a" "positiveTvl rt b"
  shows "byTvlDesc rt a b = Some (tvlOf rt b - tvlOf rt a)"
proof -
  have "truthy (opt_get a ''tvl'')" "truthy (opt_get b ''tvl'')"
    using assms by (auto simp: positiveTvl_def intro: js_gt_0_truthy)
  then show ?thesis
    using positiveTvl_toNumber [OF assms(1)] positiveTvl_toNumber [OF assms(2)]
    by (simp add: byTvlDesc_def js_or_def js_minus_def)
qed

lemma insort_cmp_byTvlDesc:
  assumes "positiveTvl rt x" "\<forall>y\<in>set ys. positiveTvl rt y"
  shows "insort_cmp (byTvlDesc rt) x ys = insort_key (\<lambda>p. - tvlOf rt p) x ys"
  using assms by (induction ys) (auto simp: byTvlDesc_positive cmp_le0_def)

lemma sort_cmp_byTvlDesc:
  assumes "\<forall>y\<in>set xs. positiveTvl rt y"
  shows "sort_cmp (byTvlDesc rt) xs = sort_key (\<lambda>p. - tvlOf rt p) xs"
  using assms
proof (induction xs)
  case Nil
  then show ?case by (simp add: sort_cmp_def)
next
  case (Cons x xs)
  then have IH: "sort_cmp (byTvlDesc rt) xs = sort_key (\<lambda>p. - tvlOf rt p) xs" by simp
  have "sort_cmp (byTvlDesc rt) (x # xs) = insort_cmp (byTvlDesc rt) x (sort_cmp (byTvlDesc rt) xs)"
    by (simp add: sort_cmp_def)
  also have "\<dots> = insort_key (\<lambda>p. - tvlOf rt p) x (sort_key (\<lambda>p. - tvlOf rt p) xs)"
    unfolding IH using Cons.prems by (intro insort_cmp_byTvlDesc) auto
  finally show ?case by (simp add: sort_key_def)
qed

lemma normalizeProtocol_tvl:
  "normalizeProtocol p = Inr e \<Longrightarrow> opt_get e ''tvl'' = opt_get p ''tvl''"
  by (auto simp: normalizeProtocol_def bindE_Inr_iff)

lemma sorted_wrt_desc_take:
  "sorted (map (\<lambda>p. - f p) xs) \<Longrightarrow> sorted_wrt (\<lambda>a b. (b :: real) \<le> a) (map f (take n xs))"
proof -
  assume "sorted (map (\<lambda>p. - f p) xs)"
  then have "sorted_wrt (\<lambda>a b. f b \<le> f a) xs"
    by (simp add: sorted_wrt_map)
  then have "sorted_wrt (\<lambda>a b. f b \<le> f a) (take n xs)"
    by (rule sorted_wrt_take)
  then show ?thesis by (simp add: sorted_wrt_map)
qed

lemma filterE_returns:
  "list_all (\<lambda>x. \<exists>b. f x = Inr b) xs \<Longrightarrow> \<exists>kept. filterE f xs = Inr kept \<and> set kept \<subseteq> set xs"
proof (induction xs)
  case Nil
  then show ?case by simp
next
  case (Cons x xs)
  then obtain b kept where "f x = Inr b" "filterE f xs = Inr kept" "set kept \<subseteq> set xs"
    by auto
  then show ?case by auto
qed

lemma mapE_returns:
  "list_all (\<lambda>x. \<exists>y. f x = Inr y) xs \<Longrightarrow> \<exists>ys. mapE f xs = Inr ys"
proof (induction xs)
  case Nil
  then show ?case by simp
next
  case (Cons x xs)
  then obtain y ys where "f x = Inr y" "mapE f xs = Inr ys"
    by auto
  then show ?case by auto
qed

lemma set_insort_cmp: "set (insort_cmp cmp x ys) = insert x (set ys)"
  by (induction ys) auto

lemma set_sort_cmp: "set (sort_cmp cmp xs) = set xs"
  by (induction xs) (simp_all add: sort_cmp_def set_insort_cmp)

lemma normalizeProtocol_returns: "wellFormedRaw p \<Longrightarrow> \<exists>e. normalizeProtocol p = Inr e"
  by (cases "opt_get p ''chains''")
     (auto simp: wellFormedRaw_def normalizeProtocol_def get_def opt_slice_def)

lemma topDeFi_returns:
  assumes "list_all wellFormedRaw raw"
  shows "\<exists>out. topDeFi rt (JArr raw) = Inr out"
proof -
  let ?f = "\<lambda>p. bindE (get p ''tvl'') (\<lambda>tvl. Inr (js_gt rt tvl 0))"
  have "list_all (\<lambda>x. \<exists>b. ?f x = Inr b) raw"
    using assms by (auto simp: list_all_iff wellFormedRaw_def get_def)
  from filterE_returns [OF this] obtain kept where
    kept: "filterE ?f raw = Inr kept" "set kept \<subseteq> set raw"
    by blast
  have "list_all (\<lambda>x. \<exists>y. normalizeProtocol x = Inr y) (take 10 (sort_cmp (byTvlDesc rt) kept))"
  proof -
    have "\<exists>y. normalizeProtocol x = Inr y"
      if "x \<in> set (take 10 (sort_cmp (byTvlDesc rt) kept))" for x
    proof -
      from that have "x \<in> set (sort_cmp (byTvlDesc rt) kept)"
        by (rule in_set_takeD)
      then have "x \<in> set raw"
        using kept(2) by (auto simp: set_sort_cmp)
      with assms have "wellFormedRaw x"
        by (simp add: list_all_iff)
      then show ?thesis by (rule normalizeProtocol_returns)
    qed
    then show ?thesis by (simp add: list_all_iff)
  qed
  from mapE_returns [OF this] kept(1) show ?thesis
    by (auto simp: topDeFi_def)
qed

text \<open>
  C7. The transform of \<open>fetchTopDeFi\<close> returns on every list whose entries are not
  \<^verbatim>\<open>null\<close> and have a list of chains or none. Whenever it returns, it returns at most 10
  entries, the TVL of every entry compares above 0 (so an entry whose TVL is zero, negative
  or missing is not among them), and the TVLs, read as numbers, are in descending order.
\<close>

theorem topDeFi_capped_positive_descending:
  "(list_all wellFormedRaw raw \<longrightarrow> (\<exists>out. topDeFi rt (JArr raw) = Inr out))
   \<and> (topDeFi rt protocols = Inr out
      \<longrightarrow> length out \<le> 10
          \<and> (\<forall>e\<in>set out. js_gt rt (opt_get e ''tvl'') 0)
          \<and> (\<forall>e\<in>set out. \<forall>t. opt_get e ''tvl'' = JNum t \<longrightarrow> 0 < t)
          \<and> (\<exists>ts. map (\<lambda>e. toNumber rt (opt_get e ''tvl'')) out = map Some ts
                 \<and> sorted_wrt (\<lambda>a b. b \<le> a) ts))"
  (is "?total \<and> (?ret \<longrightarrow> ?props)")
proof (rule conjI)
  show ?total
    by (simp add: topDeFi_returns)
  show "?ret \<longrightarrow> ?props"
  proof (rule impI)
    assume ret: "?ret"
    show ?props
    proof -
      let ?f = "\<lambda>p. bindE (get p ''tvl'') (\<lambda>tvl. Inr (js_gt rt tvl 0))"
      from ret obtain kept where
        kept: "call_filter protocols ?f = Inr kept" and
        out: "mapE normalizeProtocol (take 10 (sort_cmp (byTvlDesc rt) kept)) = Inr out"
        by (auto simp: topDeFi_def bindE_Inr_iff)
      from kept obtain entries where entries: "filterE ?f entries = Inr kept"
        by (cases protocols) auto
      have pos: "\<forall>p\<in>set kept. positiveTvl rt p"
        using filterE_kept [OF entries]
        by (auto simp: positiveTvl_def get_def bindE_Inr_iff split: if_splits)
      let ?top = "take 10 (sort_key (\<lambda>p. - tvlOf rt p) kept)"
      from out have rel: "list_all2 (\<lambda>p e. normalizeProtocol p = Inr e) ?top out"
        unfolding sort_cmp_byTvlDesc [OF pos] by (rule mapE_list_all2)
      then have rel': "list_all2 (\<lambda>p e. opt_get e ''tvl'' = opt_get p ''tvl'') ?top out"
        by (rule list_all2_mono) (simp add: normalizeProtocol_tvl)
      have top_pos: "\<forall>p\<in>set ?top. positiveTvl rt p"
        using pos by (auto dest: in_set_takeD)
      have len: "length out \<le> 10"
        using list_all2_lengthD [OF rel] by simp
      have tvls: "map (\<lambda>e. opt_get e ''tvl'') out = map (\<lambda>p. opt_get p ''tvl'') ?top"
        using rel' by (induction rule: list_all2_induct) auto
      have gt: "\<forall>e\<in>set out. js_gt rt (opt_get e ''tvl'') 0"
      proof
        fix e assume "e \<in> set out"
        then have "opt_get e ''tvl'' \<in> set (map (\<lambda>p. opt_get p ''tvl'') ?top)"
          unfolding tvls [symmetric] by simp
        then obtain p where "p \<in> set ?top" "opt_get e ''tvl'' = opt_get p ''tvl''" by auto
        with top_pos show "js_gt rt (opt_get e ''tvl'') 0"
          by (auto simp: positiveTvl_def)
      qed
      have nums: "map (\<lambda>e. toNumber rt (opt_get e ''tvl'')) out = map Some (map (tvlOf rt) ?top)"
      proof -
        have "map (\<lambda>e. toNumber rt (opt_get e ''tvl'')) out
            = map (toNumber rt) (map (\<lambda>e. opt_get e ''tvl'') out)" by simp
        also have "\<dots> = map (\<lambda>p. toNumber rt (opt_get p ''tvl'')) ?top"
          unfolding tvls by simp
        also have "\<dots> = map (\<lambda>p. Some (tvlOf rt p)) ?top"
          using top_pos by (intro map_cong refl) (simp add: positiveTvl_toNumber)
        finally show ?thesis by simp
      qed
      have srt: "sorted_wrt (\<lambda>a b. b \<le> a) (map (tvlOf rt) ?top)"
        by (intro sorted_wrt_desc_take sorted_sort_key)
      have desc: "\<exists>ts. map (\<lambda>e. toNumber rt (opt_get e ''tvl'')) out = map Some ts
          \<and> sorted_wrt (\<lambda>a b. b \<le> a) ts"
        using nums srt by blast
      have num: "\<forall>e\<in>set out. \<forall>t. opt_get e ''tvl'' = JNum t \<longrightarrow> 0 < t"
        using gt by (auto simp: js_gt_def)
      from len gt num desc show ?props
        by blast
    qed
  qed
qed

theorem topDeFi_capped_positive_descending_witness:
  "list_all wellFormedRaw
       [JObj [(''name'', JStr ''Lido''), (''tvl'', JNum 5)],
        JObj [(''name'', JStr ''Dead''), (''tvl'', JNum 0)],
        JObj [(''name'', JStr ''Aave''), (''category'', JStr ''Lending''), (''tvl'', JNum 9),
          (''change_7d'', JNum 11)],
        JObj [(''name'', JStr ''Debt''), (''tvl'', JNum (- 3))],
        JObj [(''name'', JStr ''None'')]]
   \<and> length [JObj [(''name'', JStr ''Aave''), (''category'', JStr ''Lending''), (''tvl'', JNum 9),
        (''tvlChange24h'', JUndefined), (''tvlChange7d'', JNum 11), (''chains'', JArr []),
        (''url'', JUndefined)],
      JObj [(''name'', JStr ''Lido''), (''category'', JUndefined), (''tvl'', JNum 5),
        (''tvlChange24h'', JUndefined), (''tvlChange7d'', JUndefined), (''chains'', JArr []),
        (''url'', JUndefined)]] \<le> (10 :: nat)
   \<and> (\<exists>ts. [Some 9, Some 5] = map Some ts \<and> sorted_wrt (\<lambda>a b. b \<le> a) (ts :: real list))"
proof -
  let ?raw = "[JObj [(''name'', JStr ''Lido''), (''tvl'', JNum 5)],
        JObj [(''name'', JStr ''Dead''), (''tvl'', JNum 0)],
        JObj [(''name'', JStr ''Aave''), (''category'', JStr ''Lending''), (''tvl'', JNum 9),
          (''change_7d'', JNum 11)],
        JObj [(''name'', JStr ''Debt''), (''tvl'', JNum (- 3))],
        JObj [(''name'', JStr ''None'')]]"
  have wf: "list_all wellFormedRaw ?raw"
    by (simp add: wellFormedRaw_def)
  let ?out = "[JObj [(''name'', JStr ''Aave''), (''category'', JStr ''Lending''), (''tvl'', JNum 9),
        (''tvlChange24h'', JUndefined), (''tvlChange7d'', JNum 11), (''chains'', JArr []),
        (''url'', JUndefined)],
      JObj [(''name'', JStr ''Lido''), (''category'', JUndefined), (''tvl'', JNum 5),
        (''tvlChange24h'', JUndefined), (''tvlChange7d'', JUndefined), (''chains'', JArr []),
        (''url'', JUndefined)]]"
  have run: "topDeFi exampleRuntime (JArr ?raw) = Inr ?out"
    by code_simp
  from topDeFi_capped_positive_descending [where rt = exampleRuntime and raw = "?raw"
      and protocols = "JArr ?raw" and out = "?out"] run wf
  show ?thesis
    by simp
qed

section \<open>Errors through the operations\<close>

lemma isl_bindE: "isl m \<Longrightarrow> isl (bindE m f)"
  by (cases m) simp_all

lemma isl_bindE_cont: "(\<And>x. isl (f x)) \<Longrightarrow> isl (bindE m f)"
  by (cases m) simp_all

lemma failed_json: "failed fetch \<Longrightarrow> isl (bindE fetch json)"
  by (cases fetch) (auto simp: failed_def json_def)

lemma failed_fetchTopDeFi: "failed fetch \<Longrightarrow> isl (fetchTopDeFi rt fetch)"
  by (cases fetch) (auto simp: failed_def json_def fetchTopDeFi_def)

lemma failed_fetchDexVolume: "failed fetch \<Longrightarrow> isl (fetchDexVolume fetch)"
  by (cases fetch) (auto simp: failed_def json_def fetchDexVolume_def)

lemma whenSelected_failed:
  "call_includes sources name = Inr True \<Longrightarrow> isl fetchIt \<Longrightarrow> isl (whenSelected sources name fetchIt)"
  by (simp add: whenSelected_def)

lemma json_withStatus: "bindE (withStatus b fetch) json = bindE fetch json"
  by (cases fetch) (simp_all add: withStatus_def json_def)

lemma fetchTopDeFi_withStatus: "fetchTopDeFi rt (withStatus b fetch) = fetchTopDeFi rt fetch"
  by (cases fetch) (simp_all add: fetchTopDeFi_def withStatus_def json_def)

lemma fetchDexVolume_withStatus: "fetchDexVolume (withStatus b fetch) = fetchDexVolume fetch"
  by (cases fetch) (simp_all add: fetchDexVolume_def withStatus_def json_def)

lemma requestInput_not_nullish: "\<not> nullish (requestInput req)"
  by (cases "opt_get (requestBody req) ''input''") (auto simp: requestInput_def js_or_def)

lemma daily_alpha_invoke_body:
  assumes "\<not> nullish (requestBody req)"
  shows "daily_alpha_invoke rt req up =
     bindE (whenSelected (requestSources req) ''feargreed'' (fetchFearGreed (fng up)))
       (\<lambda>fearGreed.
     bindE (whenSelected (requestSources req) ''coingecko'' (fetchTrending (search_trending up)))
       (\<lambda>trending.
     bindE (whenSelected (requestSources req) ''coingecko'' (fetchTopCoins (coins_markets up)))
       (\<lambda>topCoins.
     bindE (whenSelected (requestSources req) ''defillama'' (fetchTopDeFi rt (llama_protocols up)))
       (\<lambda>defi.
     bindE (whenSelected (requestSources req) ''defillama'' (fetchDexVolume (overview_dexs up)))
       (\<lambda>dexVolume.
       digest rt fearGreed trending topCoins defi dexVolume)))))"
  using assms requestInput_not_nullish [of req]
  by (simp add: daily_alpha_invoke_def get_def Let_def requestSources_def requestInput_def)

lemma get_Inr_iff: "get v k = Inr x \<longleftrightarrow> \<not> nullish v \<and> x = opt_get v k"
  by (auto simp: get_def)

lemma fear_greed_current:
  assumes "fetchFearGreed fetch = Inr data" "fear_greed_invoke rt fetch = Inr out"
  shows "path out [''output'', ''current'', ''value'']
           = numJ (parseInt rt (js_or (rawValue data) (JStr ''50'')))"
    and "path out [''output'', ''current'', ''classification'']
           = js_or (rawClass data) (JStr ''Unknown'')"
  using assms unfolding fear_greed_invoke_def Let_def
  by (auto simp: bindE_Inr_iff get_Inr_iff path_def reply_def rawValue_def rawClass_def)

lemma digest_marketContext:
  assumes "digest rt fearGreed trending topCoins defi dexVolume = Inr out"
  shows "path out [''output'', ''marketContext'', ''fearGreedIndex'']
           = numJ (parseInt rt (js_or (rawValue fearGreed) (JStr ''50'')))"
    and "path out [''output'', ''marketContext'', ''fearGreedClass'']
           = js_or (rawClass fearGreed) (JStr ''Unknown'')"
  using assms unfolding digest_def
  by (auto simp: bindE_Inr_iff path_def reply_def rawValue_def rawClass_def)

section \<open>Properties of the operations\<close>

text \<open>
  C1. The engine reads \<^verbatim>\<open>defi.slice(0, 3)\<close> with no guard, so on a \<^verbatim>\<open>null\<close> DeFi list it
  raises where the claim promises a list, whatever the other inputs are: a TypeError on
  \<^verbatim>\<open>null\<close> for every input but the sentiment payload, and a TypeError out of the digest
  operation on a request that selects \<^verbatim>\<open>feargreed\<close> alone.
\<close>

theorem null_defi_raises:
  "isl (buildAlphaSignals rt fearGreed trending topCoins JNull dexVolume)
   \<and> buildAlphaSignals exampleRuntime (fearGreedOf ''20'' ''Extreme Fear'') JNull JNull JNull JNull
       = Inl TypeError
   \<and> daily_alpha_invoke exampleRuntime onlyFearGreed exampleUpstream = Inl TypeError"
proof -
  have "isl (buildAlphaSignals rt fearGreed trending topCoins JNull dexVolume)"
    apply (simp add: buildAlphaSignals_def Let_def)
    apply (intro isl_bindE_cont)
    apply simp
    done
  moreover have "buildAlphaSignals exampleRuntime (fearGreedOf ''20'' ''Extreme Fear'')
      JNull JNull JNull JNull = Inl TypeError"
    by code_simp
  moreover have "daily_alpha_invoke exampleRuntime onlyFearGreed exampleUpstream = Inl TypeError"
    by code_simp
  ultimately show ?thesis by blast
qed

text \<open>
  C2 as stated fails: with the default request and every other source answering, a
  transport error of the sentiment source alone comes out of the digest operation as that
  error, not as a succeeded result.
\<close>

theorem digest_source_failure_counterexample:
  "daily_alpha_invoke exampleRuntime None (exampleUpstream\<lparr>fng := Inl NetworkError\<rparr>)
     = Inl NetworkError"
  by code_simp

text \<open>
  C2, amended. In each multi-source operation a failed call of a source the operation
  reads (the transport raised, or the body is not JSON) is not caught: the operation raises
  and returns no result. For the digest this is so for every source of a group the request
  selects. The response status is not read: with every answer's status changed, each
  operation returns what it returned.
\<close>

theorem source_failure_propagates:
  "(failed fetch \<longrightarrow> isl (fear_greed_invoke rt fetch) \<and> isl (trending_invoke rt fetch))
   \<and> (failed (llama_protocols up) \<or> failed (overview_dexs up) \<longrightarrow> isl (defi_stats_invoke rt up))
   \<and> (selects req ''feargreed'' \<and> failed (fng up)
        \<or> selects req ''coingecko'' \<and> (failed (search_trending up) \<or> failed (coins_markets up))
        \<or> selects req ''defillama'' \<and> (failed (llama_protocols up) \<or> failed (overview_dexs up))
       \<longrightarrow> isl (daily_alpha_invoke rt req up))
   \<and> fear_greed_invoke rt (withStatus b fetch) = fear_greed_invoke rt fetch
   \<and> trending_invoke rt (withStatus b fetch) = trending_invoke rt fetch
   \<and> defi_stats_invoke rt (upstreamWithStatus b up) = defi_stats_invoke rt up
   \<and> daily_alpha_invoke rt req (upstreamWithStatus b up) = daily_alpha_invoke rt req up"
proof -
  have fg: "failed fetch \<Longrightarrow> isl (fear_greed_invoke rt fetch)"
    unfolding fear_greed_invoke_def fetchFearGreed_def
    by (intro isl_bindE failed_json)
  have tr: "failed fetch \<Longrightarrow> isl (trending_invoke rt fetch)"
    unfolding trending_invoke_def fetchTrending_def
    by (intro isl_bindE failed_json)
  have ds: "failed (llama_protocols up) \<or> failed (overview_dexs up)
      \<Longrightarrow> isl (defi_stats_invoke rt up)"
  proof (cases "fetchTopDeFi rt (llama_protocols up)")
    case (Inl e)
    then show ?thesis by (simp add: defi_stats_invoke_def)
  next
    case (Inr v)
    assume "failed (llama_protocols up) \<or> failed (overview_dexs up)"
    with Inr failed_fetchTopDeFi [of "llama_protocols up" rt] have "failed (overview_dexs up)"
      by auto
    from failed_fetchDexVolume [OF this] Inr show ?thesis
      by (simp add: defi_stats_invoke_def isl_bindE)
  qed
  have da: "isl (daily_alpha_invoke rt req up)"
    if sel: "selects req ''feargreed'' \<and> failed (fng up)
        \<or> selects req ''coingecko'' \<and> (failed (search_trending up) \<or> failed (coins_markets up))
        \<or> selects req ''defillama'' \<and> (failed (llama_protocols up) \<or> failed (overview_dexs up))"
  proof (cases "nullish (requestBody req)")
    case True
    then show ?thesis by (simp add: daily_alpha_invoke_def get_def)
  next
    case False
    note body = daily_alpha_invoke_body [OF False]
    from sel consider
        (fg) "selects req ''feargreed''" "failed (fng up)"
      | (tr) "selects req ''coingecko''" "failed (search_trending up)"
      | (tc) "selects req ''coingecko''" "failed (coins_markets up)"
      | (lp) "selects req ''defillama''" "failed (llama_protocols up)"
      | (dx) "selects req ''defillama''" "failed (overview_dexs up)"
      by blast
    then show ?thesis
    proof cases
      case fg
      then have h: "isl (whenSelected (requestSources req) ''feargreed'' (fetchFearGreed (fng up)))"
        by (simp add: selects_def whenSelected_failed fetchFearGreed_def failed_json)
      show ?thesis unfolding body
        by (rule isl_bindE, rule h)
    next
      case tr
      then have h: "isl (whenSelected (requestSources req) ''coingecko''
          (fetchTrending (search_trending up)))"
        by (simp add: selects_def whenSelected_failed fetchTrending_def failed_json)
      show ?thesis unfolding body
        by (rule isl_bindE_cont, rule isl_bindE, rule h)
    next
      case tc
      then have h: "isl (whenSelected (requestSources req) ''coingecko''
          (fetchTopCoins (coins_markets up)))"
        by (simp add: selects_def whenSelected_failed fetchTopCoins_def failed_json)
      show ?thesis unfolding body
        by (rule isl_bindE_cont, rule isl_bindE_cont, rule isl_bindE, rule h)
    next
      case lp
      then have h: "isl (whenSelected (requestSources req) ''defillama''
          (fetchTopDeFi rt (llama_protocols up)))"
        by (simp add: selects_def whenSelected_failed failed_fetchTopDeFi)
      show ?thesis unfolding body
        by (rule isl_bindE_cont, rule isl_bindE_cont, rule isl_bindE_cont, rule isl_bindE, rule h)
    next
      case dx
      then have h: "isl (whenSelected (requestSources req) ''defillama''
          (fetchDexVolume (overview_dexs up)))"
        by (simp add: selects_def whenSelected_failed failed_fetchDexVolume)
      show ?thesis unfolding body
        by (rule isl_bindE_cont, rule isl_bindE_cont, rule isl_bindE_cont, rule isl_bindE_cont, rule isl_bindE, rule h)
    qed
  qed
  have st: "fear_greed_invoke rt (withStatus b fetch) = fear_greed_invoke rt fetch"
    "trending_invoke rt (withStatus b fetch) = trending_invoke rt fetch"
    "defi_stats_invoke rt (upstreamWithStatus b up) = defi_stats_invoke rt up"
    by (simp_all add: fear_greed_invoke_def trending_invoke_def defi_stats_invoke_def
        upstreamWithStatus_def fetchFearGreed_def fetchTrending_def fetchTopDeFi_withStatus
        fetchDexVolume_withStatus json_withStatus)
  have st': "daily_alpha_invoke rt req (upstreamWithStatus b up) = daily_alpha_invoke rt req up"
    by (simp add: daily_alpha_invoke_def upstreamWithStatus_def fetchFearGreed_def
        fetchTrending_def fetchTopCoins_def fetchTopDeFi_withStatus fetchDexVolume_withStatus
        json_withStatus)
  from fg tr ds da st st' show ?thesis
    by blast
qed

theorem source_failure_propagates_witness:
  "failed (Inl NetworkError)
   \<and> isl (fear_greed_invoke exampleRuntime (Inl NetworkError))
   \<and> isl (trending_invoke exampleRuntime (Inl NetworkError))
   \<and> failed (overview_dexs (exampleUpstream\<lparr>overview_dexs := Inl NetworkError\<rparr>))
   \<and> isl (defi_stats_invoke exampleRuntime (exampleUpstream\<lparr>overview_dexs := Inl NetworkError\<rparr>))
   \<and> selects None ''defillama''
   \<and> isl (daily_alpha_invoke exampleRuntime None
        (exampleUpstream\<lparr>overview_dexs := Inl NetworkError\<rparr>))"
proof -
  have f: "failed (Inl NetworkError)"
    by (simp add: failed_def)
  have g: "failed (overview_dexs (exampleUpstream\<lparr>overview_dexs := Inl NetworkError\<rparr>))"
    by (simp add: failed_def)
  have s: "selects None ''defillama''"
    by (simp add: selects_def requestSources_def requestInput_def requestBody_def js_or_def)
  from source_failure_propagates [of "Inl NetworkError" exampleRuntime
      "exampleUpstream\<lparr>overview_dexs := Inl NetworkError\<rparr>" None] f g s
  show ?thesis by blast
qed

text \<open>
  C8. When the request's body is not \<^verbatim>\<open>null\<close>, its token is the string \<open>s\<close> and the
  upstream answers the lookup of the lower-cased \<open>s\<close> with a non-success status, the
  token-intel operation returns (it does not raise) the result with status \<open>failed\<close> whose
  payload has the error "Token \<open>id\<close> not found", \<open>id\<close> being the id looked up, and the
  suggestion to use a CoinGecko token id.
\<close>

theorem token_not_found_failed_result:
  assumes "\<not> nullish (requestBody req)"
    and "requestToken req = JStr s"
    and "coins_id (map lowerChar s) = Inr res"
    and "\<not> ok res"
  shows "token_intel_invoke rt req coins_id = Inr (JObj [
           (''run_id'', JStr (randomUUID rt)),
           (''status'', JStr ''failed''),
           (''output'', JObj [
              (''error'', JStr (''Token '' @ map lowerChar s @ '' not found'')),
              (''suggestion'', JStr ''Use CoinGecko token ID (e.g., bitcoin, ethereum)'')])])"
proof -
  have "tokenReport rt (map lowerChar s) (coins_id (map lowerChar s))
      = Inl (Error (''Token '' @ map lowerChar s @ '' not found''))"
    using assms(3,4) by (simp add: tokenReport_def fetchTokenInfo_def)
  then show ?thesis
    using assms(1,2) requestInput_not_nullish [of req]
    by (simp add: token_intel_invoke_def get_def Let_def requestToken_def requestInput_def
        catchE_def tokenFailure_def reply_def)
qed

theorem token_not_found_failed_result_witness:
  "token_intel_invoke exampleRuntime (tokenRequest ''DogeX'') (\<lambda>id. notFound) = Inr (JObj [
     (''run_id'', JStr ''123e4567-e89b-42d3-a456-426614174000''),
     (''status'', JStr ''failed''),
     (''output'', JObj [
        (''error'', JStr ''Token dogex not found''),
        (''suggestion'', JStr ''Use CoinGecko token ID (e.g., bitcoin, ethereum)'')])])"
proof -
  have b: "\<not> nullish (requestBody (tokenRequest ''DogeX''))"
    by (simp add: requestBody_def tokenRequest_def)
  have t: "requestToken (tokenRequest ''DogeX'') = JStr ''DogeX''"
    by (simp add: requestToken_def requestInput_def requestBody_def tokenRequest_def js_or_def)
  have c: "(\<lambda>id. notFound) (map lowerChar ''DogeX'') = Inr \<lparr>ok = False,
      body = Some (JObj [(''error'', JStr ''coin not found'')])\<rparr>"
    by (simp add: notFound_def)
  have l: "map lowerChar ''DogeX'' = ''dogex''"
    by code_simp
  have r: "randomUUID exampleRuntime = ''123e4567-e89b-42d3-a456-426614174000''"
    by (simp add: exampleRuntime_def)
  have m: "''Token '' @ ''dogex'' @ '' not found'' = ''Token dogex not found''"
    by simp
  from token_not_found_failed_result [of "tokenRequest ''DogeX''" "''DogeX''" "\<lambda>id. notFound",
      OF b t c, of exampleRuntime, unfolded l r m]
  show ?thesis
    by simp
qed

text \<open>
  C9 as stated fails: on a sentiment payload with no readings, the sentiment-index
  operation reports the class "Unknown", not "Neutral".
\<close>

theorem sentiment_class_default_counterexample:
  "fear_greed_invoke exampleRuntime (answered (JObj [])) = Inr (JObj [
     (''run_id'', JStr ''123e4567-e89b-42d3-a456-426614174000''),
     (''status'', JStr ''succeeded''),
     (''output'', JObj [
        (''current'', JObj [(''value'', JNum 50), (''classification'', JStr ''Unknown'')]),
        (''history'', JArr []),
        (''interpretation'', JStr ''Market sentiment is neutral to moderate'')])])"
  by code_simp

text \<open>
  C9, amended. Where the sentiment score is missing or \<^verbatim>\<open>null\<close>, the Signal Engine, the
  sentiment-index operation and the market context of the digest all read it as 50. Where
  the class is missing or \<^verbatim>\<open>null\<close>, the Signal Engine reads "Neutral", and the
  sentiment-index operation and the market context of the digest report "Unknown". In the
  digest the sentiment payload is \<^verbatim>\<open>null\<close> when the request does not select it.
\<close>

theorem sentiment_defaults:
  "(nullish (rawValue fearGreed) \<longrightarrow> fgValue rt fearGreed = Some 50)
   \<and> (nullish (rawClass fearGreed) \<longrightarrow> fgClass fearGreed = JStr ''Neutral'')
   \<and> (fetchFearGreed fetch = Inr data \<and> fear_greed_invoke rt fetch = Inr out
        \<longrightarrow> (nullish (rawValue data) \<longrightarrow> path out [''output'', ''current'', ''value''] = JNum 50)
          \<and> (nullish (rawClass data)
               \<longrightarrow> path out [''output'', ''current'', ''classification''] = JStr ''Unknown''))
   \<and> (daily_alpha_invoke rt req up = Inr result
        \<longrightarrow> (\<exists>payload.
              whenSelected (requestSources req) ''feargreed'' (fetchFearGreed (fng up)) = Inr payload
              \<and> (\<not> selects req ''feargreed'' \<longrightarrow> payload = JNull)
              \<and> (nullish (rawValue payload)
                   \<longrightarrow> path result [''output'', ''marketContext'', ''fearGreedIndex''] = JNum 50)
              \<and> (nullish (rawClass payload)
                   \<longrightarrow> path result [''output'', ''marketContext'', ''fearGreedClass'']
                         = JStr ''Unknown'')))"
proof -
  have signal: "nullish (rawValue fearGreed) \<longrightarrow> fgValue rt fearGreed = Some 50"
    "nullish (rawClass fearGreed) \<longrightarrow> fgClass fearGreed = JStr ''Neutral''"
    by (simp_all add: rawValue_def rawClass_def fgValue_def fgClass_def absent_default parseInt_50)
  have index: "(nullish (rawValue data) \<longrightarrow> path out [''output'', ''current'', ''value''] = JNum 50)
      \<and> (nullish (rawClass data)
           \<longrightarrow> path out [''output'', ''current'', ''classification''] = JStr ''Unknown'')"
    if "fetchFearGreed fetch = Inr data" "fear_greed_invoke rt fetch = Inr out"
    using fear_greed_current [OF that]
    by (simp add: absent_default parseInt_50 numJ_def)
  have ctx: "\<exists>payload.
      whenSelected (requestSources req) ''feargreed'' (fetchFearGreed (fng up)) = Inr payload
      \<and> (\<not> selects req ''feargreed'' \<longrightarrow> payload = JNull)
      \<and> (nullish (rawValue payload)
           \<longrightarrow> path result [''output'', ''marketContext'', ''fearGreedIndex''] = JNum 50)
      \<and> (nullish (rawClass payload)
           \<longrightarrow> path result [''output'', ''marketContext'', ''fearGreedClass''] = JStr ''Unknown'')"
    if ret: "daily_alpha_invoke rt req up = Inr result"
  proof -
    have "\<not> nullish (requestBody req)"
      using ret by (auto simp: daily_alpha_invoke_def get_def split: if_splits)
    from ret [unfolded daily_alpha_invoke_body [OF this]] obtain payload trending topCoins defi
        dexVolume where
      p: "whenSelected (requestSources req) ''feargreed'' (fetchFearGreed (fng up)) = Inr payload"
      and d: "digest rt payload trending topCoins defi dexVolume = Inr result"
      unfolding bindE_Inr_iff by blast
    from p have null: "\<not> selects req ''feargreed'' \<longrightarrow> payload = JNull"
      by (auto simp: whenSelected_def selects_def bindE_Inr_iff split: if_splits)
    from digest_marketContext [OF d] have
      "nullish (rawValue payload)
         \<longrightarrow> path result [''output'', ''marketContext'', ''fearGreedIndex''] = JNum 50"
      "nullish (rawClass payload)
         \<longrightarrow> path result [''output'', ''marketContext'', ''fearGreedClass''] = JStr ''Unknown''"
      by (simp_all add: absent_default parseInt_50 numJ_def)
    with p null show ?thesis by blast
  qed
  from signal index ctx show ?thesis by blast
qed

theorem sentiment_defaults_witness:
  "nullish (rawValue (JObj [])) \<and> nullish (rawClass (JObj []))
   \<and> fgValue exampleRuntime (JObj []) = Some 50
   \<and> fgClass (JObj []) = JStr ''Neutral''
   \<and> path (JObj [
        (''run_id'', JStr ''123e4567-e89b-42d3-a456-426614174000''),
        (''status'', JStr ''succeeded''),
        (''output'', JObj [
           (''current'', JObj [(''value'', JNum 50), (''classification'', JStr ''Unknown'')]),
           (''history'', JArr []),
           (''interpretation'', JStr ''Market sentiment is neutral to moderate'')])])
       [''output'', ''current'', ''classification''] = JStr ''Unknown''"
proof -
  have n: "nullish (rawValue (JObj []))" "nullish (rawClass (JObj []))"
    by (simp_all add: rawValue_def rawClass_def)
  have f: "fetchFearGreed (answered (JObj [])) = Inr (JObj [])"
    by (simp add: fetchFearGreed_def answered_def json_def)
  have run: "fear_greed_invoke exampleRuntime (answered (JObj [])) = Inr (JObj [
     (''run_id'', JStr ''123e4567-e89b-42d3-a456-426614174000''),
     (''status'', JStr ''succeeded''),
     (''output'', JObj [
        (''current'', JObj [(''value'', JNum 50), (''classification'', JStr ''Unknown'')]),
        (''history'', JArr []),
        (''interpretation'', JStr ''Market sentiment is neutral to moderate'')])])"
    by code_simp
  from sentiment_defaults [of "JObj []" exampleRuntime "answered (JObj [])" "JObj []"
      "JObj [
     (''run_id'', JStr ''123e4567-e89b-42d3-a456-426614174000''),
     (''status'', JStr ''succeeded''),
     (''output'', JObj [
        (''current'', JObj [(''value'', JNum 50), (''classification'', JStr ''Unknown'')]),
        (''history'', JArr []),
        (''interpretation'', JStr ''Market sentiment is neutral to moderate'')])]"] n f run
  show ?thesis by blast
qed

text \<open>
  C10. The handler reads \<^verbatim>\<open>body.input\<close> before its \<^verbatim>\<open>try\<close>, and the fallback
  \<^verbatim>\<open>.catch(() => ({}))\<close> covers a body that does not parse, not one that parses to
  \<^verbatim>\<open>null\<close>: on the request whose body is the JSON literal \<^verbatim>\<open>null\<close>, which carries no
  token, the token-intel operation raises a TypeError where the claim promises a lookup of
  \<open>bitcoin\<close>, whatever the upstream answers.
\<close>

theorem null_body_raises:
  "token_intel_invoke rt (Some JNull) coins_id = Inl TypeError"
  by (simp add: token_intel_invoke_def requestBody_def get_def)

text \<open>
  On every other body the operation does what the claim says. If the token field is a
  non-empty string \<open>s\<close>, the operation is the \<^verbatim>\<open>try\<close>/\<^verbatim>\<open>catch\<close> around the report for the
  lower-cased \<open>s\<close>, from what the upstream answers for that id; if the field is missing,
  \<^verbatim>\<open>null\<close> or the empty string, it is the one for the id \<open>bitcoin\<close>. In both cases the
  operation returns a result and does not raise.
\<close>

lemma token_lookup_id:
  assumes "\<not> nullish (requestBody req)"
  shows "(opt_get (requestInput req) ''token'' = JStr s \<and> s \<noteq> []
           \<longrightarrow> token_intel_invoke rt req coins_id
                 = catchE (tokenReport rt (map lowerChar s) (coins_id (map lowerChar s)))
                     (tokenFailure rt))
       \<and> (nullish (opt_get (requestInput req) ''token'')
             \<or> opt_get (requestInput req) ''token'' = JStr []
           \<longrightarrow> token_intel_invoke rt req coins_id
                 = catchE (tokenReport rt ''bitcoin'' (coins_id ''bitcoin'')) (tokenFailure rt))
       \<and> \<not> isl (token_intel_invoke rt req coins_id)"
proof -
  have bitcoin: "call_toLowerCase (JStr ''bitcoin'') = Inr ''bitcoin''"
    by code_simp
  have unfold: "token_intel_invoke rt req coins_id =
      catchE (bindE (call_toLowerCase (requestToken req)) (\<lambda>tokenId.
                tokenReport rt tokenId (coins_id tokenId))) (tokenFailure rt)"
    using assms requestInput_not_nullish [of req]
    by (simp add: token_intel_invoke_def get_def Let_def requestToken_def requestInput_def)
  have a: "opt_get (requestInput req) ''token'' = JStr s \<and> s \<noteq> []
      \<longrightarrow> token_intel_invoke rt req coins_id
          = catchE (tokenReport rt (map lowerChar s) (coins_id (map lowerChar s)))
              (tokenFailure rt)"
    unfolding unfold by (simp add: requestToken_def js_or_def)
  have b: "nullish (opt_get (requestInput req) ''token'')
        \<or> opt_get (requestInput req) ''token'' = JStr []
      \<longrightarrow> token_intel_invoke rt req coins_id
          = catchE (tokenReport rt ''bitcoin'' (coins_id ''bitcoin'')) (tokenFailure rt)"
    unfolding unfold
    by (auto simp: requestToken_def js_or_def bitcoin dest: nullish_not_truthy
        simp del: call_toLowerCase.simps)
  have c: "\<not> isl (token_intel_invoke rt req coins_id)"
    unfolding unfold by (simp add: catchE_def tokenFailure_def split: sum.splits)
  from a b c show ?thesis by blast
qed

end
